theory Spec2Isabelle
  imports Main
begin

section \<open>Texts and the interpreter's tables\<close>

text \<open>
  A Python \<^verbatim>\<open>str\<close> is the list of its code points. \<open>str\<close> writes an ASCII
  literal of the source; the em dash of the lap-time sentinels is the code point 8212.
\<close>

type_synonym ustr = "nat list"

definition str :: "string \<Rightarrow> ustr" where
  "str s = map of_char s"

text \<open>
  \<^verbatim>\<open>xml.etree.ElementTree\<close> elements (tag, text, children) and BeautifulSoup nodes
  (a string, or a tag with its contents). Only tags and the strings \<^verbatim>\<open>get_text\<close> reads are
  kept: comments, attributes and tails are read by no line of the source.
\<close>

datatype xml = Element (tag: ustr) (elem_text: "ustr option") (children: "xml list")

datatype html = Text ustr | Tag ustr "html list"

text \<open>
  What the source takes from outside the repository. For ASCII the classes of
  \<^verbatim>\<open>str.isspace\<close>, \<^verbatim>\<open>\d\<close> and \<^verbatim>\<open>str.lower\<close> are written out below; beyond
  ASCII they are the Unicode tables of the running interpreter, taken as parameters, as are
  the limit of \<^verbatim>\<open>int()\<close> on the number of digits (0: no limit) and the two parsers
  (\<^verbatim>\<open>ET.fromstring\<close>, \<open>None\<close> for a ParseError, and
  \<^verbatim>\<open>BeautifulSoup(html, 'html.parser')\<close>, \<open>None\<close> when the parser rejects the
  markup and raises ParserRejectedMarkup). The tables are read the way Unicode builds them:
  a decimal digit has a value below ten and is not whitespace.
\<close>

record runtime =
  decimal_ext :: "nat \<Rightarrow> nat option"
  space_ext :: "nat \<Rightarrow> bool"
  lower_ext :: "ustr \<Rightarrow> ustr"
  max_str_digits :: nat
  fromstring :: "ustr \<Rightarrow> xml option"
  html_parser :: "ustr \<Rightarrow> html option"

datatype py_error = AttributeError | OverflowError | ValueError | ParserRejectedMarkup

definition isspace :: "runtime \<Rightarrow> nat \<Rightarrow> bool" where
  "isspace U c =
     (if c < 128 then (9 \<le> c \<and> c \<le> 13) \<or> (28 \<le> c \<and> c \<le> 32) else space_ext U c)"

definition decimal :: "runtime \<Rightarrow> nat \<Rightarrow> nat option" where
  "decimal U c =
     (if c < 128 then (if 48 \<le> c \<and> c \<le> 57 then Some (c - 48) else None)
      else if space_ext U c then None
      else (case decimal_ext U c of None \<Rightarrow> None | Some d \<Rightarrow> if d < 10 then Some d else None))"

definition is_decimal :: "runtime \<Rightarrow> nat \<Rightarrow> bool" where
  "is_decimal U c = (decimal U c \<noteq> None)"

definition lower :: "runtime \<Rightarrow> ustr \<Rightarrow> ustr" where
  "lower U s =
     (if list_all (\<lambda>c. c < 128) s
      then map (\<lambda>c. if 65 \<le> c \<and> c \<le> 90 then c + 32 else c) s
      else lower_ext U s)"

definition lstrip :: "runtime \<Rightarrow> ustr \<Rightarrow> ustr" where
  "lstrip U s = dropWhile (isspace U) s"

definition strip :: "runtime \<Rightarrow> ustr \<Rightarrow> ustr" where
  "strip U s = rev (dropWhile (isspace U) (rev (dropWhile (isspace U) s)))"

definition ljust :: "nat \<Rightarrow> nat \<Rightarrow> ustr \<Rightarrow> ustr" where
  "ljust n fill s = s @ replicate (n - length s) fill"

subsection \<open>\<^verbatim>\<open>int(s)\<close> on a text\<close>

text \<open>
  CPython first maps every non-ASCII space to a blank and every non-ASCII decimal digit to
  its ASCII digit (any other non-ASCII code point makes the literal invalid), then reads:
  ASCII blanks, an optional sign, digits with single underscores between them, ASCII
  blanks. More than 640 digits, and more than a positive \<open>max_str_digits\<close>, is a
  ValueError as well (\<open>over_digit_limit\<close>).
\<close>

definition to_ascii :: "runtime \<Rightarrow> nat \<Rightarrow> nat option" where
  "to_ascii U c =
     (if c < 127 then Some c
      else if isspace U c then Some 32
      else map_option (\<lambda>d. 48 + d) (decimal U c))"

definition ascii_blank :: "nat \<Rightarrow> bool" where
  "ascii_blank c = ((9 \<le> c \<and> c \<le> 13) \<or> c = 32)"

definition ascii_digit :: "nat \<Rightarrow> bool" where
  "ascii_digit c = (48 \<le> c \<and> c \<le> 57)"

fun underscores_ok :: "ustr \<Rightarrow> bool" where
  "underscores_ok [] = False"
| "underscores_ok [c] = (c \<noteq> 95)"
| "underscores_ok (c # d # cs) = (\<not> (c = 95 \<and> d = 95) \<and> underscores_ok (d # cs))"

definition digits_value :: "ustr \<Rightarrow> int" where
  "digits_value ds = foldl (\<lambda>a c. 10 * a + (int c - 48)) 0 ds"

definition over_digit_limit :: "runtime \<Rightarrow> nat \<Rightarrow> bool" where
  "over_digit_limit U n = (640 < n \<and> 0 < max_str_digits U \<and> max_str_digits U < n)"

definition py_int :: "runtime \<Rightarrow> ustr \<Rightarrow> py_error + int" where
  "py_int U s =
     (if \<not> list_all (\<lambda>c. to_ascii U c \<noteq> None) s then Inl ValueError
      else
        let a = dropWhile ascii_blank (map (\<lambda>c. the (to_ascii U c)) s);
            negative = (a \<noteq> [] \<and> hd a = 45);
            b = (if a \<noteq> [] \<and> (hd a = 43 \<or> hd a = 45) then tl a else a);
            body = takeWhile (\<lambda>c. ascii_digit c \<or> c = 95) b;
            rest = dropWhile (\<lambda>c. ascii_digit c \<or> c = 95) b;
            ds = filter ascii_digit body
        in if body = [] \<or> hd body = 95 \<or> \<not> underscores_ok body then Inl ValueError
           else if over_digit_limit U (length ds) then Inl ValueError
           else if dropWhile ascii_blank rest \<noteq> [] then Inl ValueError
           else Inr ((if negative then - 1 else 1) * digits_value ds))"

section \<open>The lap-time normalizer\<close>

text \<open>
  \<^verbatim>\<open>_parse_lap_time\<close> ends in \<^verbatim>\<open>minutes * 60 + seconds + millis / 1000.0\<close>: an
  \<^verbatim>\<open>int\<close> plus a \<^verbatim>\<open>float\<close>. \<open>Lap k m\<close> stands for the float this sum evaluates to
  with \<open>k = minutes * 60 + seconds\<close> and \<open>m = millis\<close>; the rounding of binary floating
  point is not modelled. Converting \<open>k\<close> to a float raises OverflowError when \<open>k\<close> rounds
  to \<open>2 ^ 1024\<close> or more, that is from \<open>2 ^ 1024 - 2 ^ 970\<close> on.
\<close>

datatype lap_time = Lap int int

definition float_overflow :: int where
  "float_overflow = 2 ^ 1024 - 2 ^ 970"

definition int_plus_float :: "int \<Rightarrow> int \<Rightarrow> py_error + lap_time" where
  "int_plus_float k m = (if float_overflow \<le> \<bar>k\<bar> then Inl OverflowError else Inr (Lap k m))"

text \<open>
  The pattern \<^verbatim>\<open>^(?:(\d+):)?(\d{1,2})(?:[.,](\d{1,3}))?$\<close>. \<open>at_end\<close> is \<^verbatim>\<open>$\<close>: the
  end of the text, or just before a final newline. \<open>match_tail\<close> is the pattern from the
  seconds group on; \<open>match_lap\<close> tries the minutes group first and then without it, as
  the optional group backtracks. The result holds the three groups.
\<close>

definition at_end :: "ustr \<Rightarrow> bool" where
  "at_end r = (r = [] \<or> r = [10])"

definition match_tail ::
  "runtime \<Rightarrow> ustr option \<Rightarrow> ustr \<Rightarrow> (ustr option \<times> ustr \<times> ustr option) option" where
  "match_tail U g1 s =
     (let g2 = takeWhile (is_decimal U) s; r = dropWhile (is_decimal U) s
      in if g2 = [] \<or> 2 < length g2 then None
         else if r \<noteq> [] \<and> (hd r = 46 \<or> hd r = 44) then
           (let g3 = takeWhile (is_decimal U) (tl r)
            in if g3 \<noteq> [] \<and> length g3 \<le> 3 \<and> at_end (dropWhile (is_decimal U) (tl r))
               then Some (g1, g2, Some g3) else None)
         else if at_end r then Some (g1, g2, None) else None)"

definition match_lap ::
  "runtime \<Rightarrow> ustr \<Rightarrow> (ustr option \<times> ustr \<times> ustr option) option" where
  "match_lap U t =
     (let g1 = takeWhile (is_decimal U) t; r = dropWhile (is_decimal U) t
      in case (if g1 \<noteq> [] \<and> r \<noteq> [] \<and> hd r = 58 then match_tail U (Some g1) (tl r) else None) of
           Some m \<Rightarrow> Some m
         | None \<Rightarrow> match_tail U None t)"

definition sentinels :: "ustr list" where
  "sentinels = [str ''-'', [8212], str ''NA'', str ''N/A'']"

text \<open>
  The last four lines of \<^verbatim>\<open>_parse_lap_time\<close>, on the groups of a match:
  \<^verbatim>\<open>int(m.group(1) or 0)\<close>, \<^verbatim>\<open>int(m.group(2))\<close>,
  \<^verbatim>\<open>int((m.group(3) or '0').ljust(3, '0'))\<close> and the sum.
\<close>

definition lap_seconds ::
  "runtime \<Rightarrow> ustr option \<Rightarrow> ustr \<Rightarrow> ustr option \<Rightarrow> py_error + lap_time option" where
  "lap_seconds U g1 g2 g3 =
     (case (case g1 of None \<Rightarrow> Inr 0 | Some ms \<Rightarrow> py_int U ms) of
        Inl e \<Rightarrow> Inl e
      | Inr minutes \<Rightarrow>
          (case py_int U g2 of
             Inl e \<Rightarrow> Inl e
           | Inr seconds \<Rightarrow>
               (case py_int U (ljust 3 48 (case g3 of None \<Rightarrow> str ''0'' | Some f \<Rightarrow> f)) of
                  Inl e \<Rightarrow> Inl e
                | Inr millis \<Rightarrow>
                    (case int_plus_float (minutes * 60 + seconds) millis of
                       Inl e \<Rightarrow> Inl e
                     | Inr v \<Rightarrow> Inr (Some v)))))"

definition parse_lap_time :: "runtime \<Rightarrow> ustr \<Rightarrow> py_error + lap_time option" where
  "parse_lap_time U txt =
     (if txt = [] then Inr None
      else
        let t = strip U txt
        in if t = [] \<or> t \<in> set sentinels then Inr None
           else
             (case match_lap U t of
                None \<Rightarrow> Inr None
              | Some (g1, g2, g3) \<Rightarrow> lap_seconds U g1 g2 g3))"

section \<open>Text helpers of the source\<close>

text \<open>
  \<open>before_last sep s\<close> is \<^verbatim>\<open>s.rsplit(sep, 1)[0]\<close> and \<open>after_last sep s\<close> is
  \<^verbatim>\<open>s.rsplit(sep, 1)[-1]\<close>, for a separator of one character; \<open>replace\<close> is
  \<^verbatim>\<open>str.replace\<close> (every occurrence, left to right, not overlapping; \<open>skip\<close> counts
  the characters of an occurrence still to drop); \<open>contains s k\<close> is \<^verbatim>\<open>k in s\<close>;
  \<open>join\<close> is \<^verbatim>\<open>sep.join\<close>; \<open>split\<close> is \<^verbatim>\<open>str.split(sep)\<close>.
\<close>

definition before_last :: "nat \<Rightarrow> ustr \<Rightarrow> ustr" where
  "before_last sep s =
     (if sep \<in> set s then rev (tl (dropWhile (\<lambda>c. c \<noteq> sep) (rev s))) else s)"

definition after_last :: "nat \<Rightarrow> ustr \<Rightarrow> ustr" where
  "after_last sep s = rev (takeWhile (\<lambda>c. c \<noteq> sep) (rev s))"

definition startswith :: "ustr \<Rightarrow> ustr \<Rightarrow> bool" where
  "startswith s p = (take (length p) s = p)"

fun replace_from :: "ustr \<Rightarrow> ustr \<Rightarrow> nat \<Rightarrow> ustr \<Rightarrow> ustr" where
  "replace_from old new skip [] = []"
| "replace_from old new (Suc skip) (c # cs) = replace_from old new skip cs"
| "replace_from old new 0 (c # cs) =
     (if startswith (c # cs) old then new @ replace_from old new (length old - 1) cs
      else c # replace_from old new 0 cs)"

definition replace :: "ustr \<Rightarrow> ustr \<Rightarrow> ustr \<Rightarrow> ustr" where
  "replace old new s =
     (if old = [] then new @ concat (map (\<lambda>c. c # new) s) else replace_from old new 0 s)"

fun contains :: "ustr \<Rightarrow> ustr \<Rightarrow> bool" where
  "contains [] k = (k = [])"
| "contains (c # cs) k = (startswith (c # cs) k \<or> contains cs k)"

fun join :: "ustr \<Rightarrow> ustr list \<Rightarrow> ustr" where
  "join sep [] = []"
| "join sep [x] = x"
| "join sep (x # y # ys) = x @ sep @ join sep (y # ys)"

fun split :: "nat \<Rightarrow> ustr \<Rightarrow> ustr list" where
  "split sep [] = [[]]"
| "split sep (c # cs) =
     (if c = sep then [] # split sep cs
      else (case split sep cs of [] \<Rightarrow> [[c]] | p # ps \<Rightarrow> (c # p) # ps))"

text \<open>\<^verbatim>\<open>re.sub(r'\s+', ' ', s)\<close>: every run of whitespace becomes one blank.\<close>

fun collapse_spaces :: "runtime \<Rightarrow> ustr \<Rightarrow> ustr" where
  "collapse_spaces U [] = []"
| "collapse_spaces U [c] = (if isspace U c then [32] else [c])"
| "collapse_spaces U (c # d # cs) =
     (if isspace U c then (if isspace U d then collapse_spaces U (d # cs)
                           else 32 # collapse_spaces U (d # cs))
      else c # collapse_spaces U (d # cs))"

text \<open>\<^verbatim>\<open>a or b or ''\<close> on the results of \<^verbatim>\<open>findtext\<close>, and \<^verbatim>\<open>v or d\<close> on a cached text.\<close>

definition first_truthy :: "ustr option \<Rightarrow> ustr option \<Rightarrow> ustr" where
  "first_truthy a b =
     (case a of
        Some s \<Rightarrow> if s \<noteq> [] then s else (case b of Some t \<Rightarrow> t | None \<Rightarrow> [])
      | None \<Rightarrow> (case b of Some t \<Rightarrow> t | None \<Rightarrow> []))"

definition or_default :: "ustr option \<Rightarrow> ustr \<Rightarrow> ustr" where
  "or_default v d = (case v of None \<Rightarrow> d | Some s \<Rightarrow> if s = [] then d else s)"

text \<open>A loop that appends the rows of each item and stops at the first exception.\<close>

fun collect :: "('a \<Rightarrow> py_error + 'b list) \<Rightarrow> 'a list \<Rightarrow> py_error + 'b list" where
  "collect f [] = Inr []"
| "collect f (x # xs) =
     (case f x of
        Inl e \<Rightarrow> Inl e
      | Inr r \<Rightarrow> (case collect f xs of Inl e \<Rightarrow> Inl e | Inr rs \<Rightarrow> Inr (r @ rs)))"

section \<open>The data model\<close>

text \<open>
  A car row (its keys are \<^verbatim>\<open>Stat.NUM\<close>, \<^verbatim>\<open>Stat.STATE\<close>, \<^verbatim>\<open>Stat.DRIVER\<close>,
  \<^verbatim>\<open>Stat.LAST_LAP\<close>, \<^verbatim>\<open>Stat.BEST_LAP\<close>), the session descriptor, the returned race
  state, and the fields the service keeps between polls (\<^verbatim>\<open>self._last_fetch_ok\<close>,
  \<^verbatim>\<open>self._last_session_name\<close>, \<^verbatim>\<open>self._last_flag\<close>, \<^verbatim>\<open>self._last_remaining\<close>).
\<close>

record car =
  car_num :: ustr
  car_state :: ustr
  car_driver :: ustr
  car_last_lap :: "lap_time option"
  car_best_lap :: "lap_time option"

record session_info =
  name :: ustr
  flag :: ustr
  remaining :: "int option"
  clock :: int
  source_ok :: bool

record race_state =
  cars :: "car list"
  session :: session_info

record service =
  last_fetch_ok :: bool
  last_session_name :: "ustr option"
  last_flag :: "ustr option"
  last_remaining :: "int option"

text \<open>
  The network and the clock of one poll: \<open>http_get w k url\<close> is what the \<open>k\<close>-th
  \<^verbatim>\<open>requests.get\<close> of the poll returns for \<open>url\<close> (an exception, or a response with its
  status code and text), \<open>now w\<close> is \<^verbatim>\<open>int(time.time())\<close> at the return.
\<close>

datatype http_result = RequestException | Response nat ustr

record world =
  http_get :: "nat \<Rightarrow> ustr \<Rightarrow> http_result"
  now :: int

definition session_of :: "service \<Rightarrow> int \<Rightarrow> bool \<Rightarrow> session_info" where
  "session_of self t ok =
     \<lparr>name = or_default (last_session_name self) (str ''2CVRT''),
      flag = or_default (last_flag self) [],
      remaining = last_remaining self,
      clock = t,
      source_ok = ok\<rparr>"

section \<open>Source selection\<close>

definition DATA_SOURCE_URL :: ustr where
  "DATA_SOURCE_URL = str ''https://results.ris-timing.be/2cvrt/live/live2025.htm''"

definition xml_candidates :: "ustr \<Rightarrow> ustr list" where
  "xml_candidates url =
     (let base_no_ext = before_last 46 url;
          filename = after_last 47 url
      in [base_no_ext @ str ''.xml''] @
         (if 46 \<in> set filename
          then [replace filename (before_last 46 filename @ str ''.xml'') url]
          else []))"

text \<open>
  A candidate is taken when the request returns, with status 200 and a text that is not
  empty and starts with \<^verbatim>\<open><?xml\<close> after its leading whitespace. \<open>probe_xml\<close> is the
  loop over the candidates; it returns \<^verbatim>\<open>xml_text\<close> and the number of requests sent.
\<close>

definition xml_accepted :: "runtime \<Rightarrow> http_result \<Rightarrow> ustr option" where
  "xml_accepted U r =
     (case r of
        RequestException \<Rightarrow> None
      | Response status body \<Rightarrow>
          if status = 200 \<and> body \<noteq> [] \<and> startswith (lstrip U body) (str ''<?xml'')
          then Some body else None)"

fun probe_xml :: "runtime \<Rightarrow> world \<Rightarrow> nat \<Rightarrow> ustr list \<Rightarrow> ustr option \<times> nat" where
  "probe_xml U w k [] = (None, k)"
| "probe_xml U w k (xu # rest) =
     (case xml_accepted U (http_get w k xu) of
        Some body \<Rightarrow> (Some body, Suc k)
      | None \<Rightarrow> probe_xml U w (Suc k) rest)"

text \<open>
  The HTML fetch: \<^verbatim>\<open>requests.get\<close> raises, or \<^verbatim>\<open>raise_for_status\<close> raises on a status
  from 400 to 599; otherwise the text of the response.
\<close>

definition raises_for_status :: "nat \<Rightarrow> bool" where
  "raises_for_status status = (400 \<le> status \<and> status < 600)"

definition fetch_html :: "world \<Rightarrow> nat \<Rightarrow> ustr \<Rightarrow> ustr option" where
  "fetch_html w k url =
     (case http_get w k url of
        RequestException \<Rightarrow> None
      | Response status body \<Rightarrow> if raises_for_status status then None else Some body)"

section \<open>The XML path\<close>

text \<open>
  \<open>descendants e\<close> lists the elements below \<open>e\<close> in document order, so
  \<open>findall_below t root\<close> is \<^verbatim>\<open>root.findall('.//t')\<close>; \<open>find_child\<close> is
  \<^verbatim>\<open>Element.find\<close> and \<open>findtext\<close> is \<^verbatim>\<open>Element.findtext\<close> on a plain tag name.
  An element is truthy when it has children, which decides
  \<^verbatim>\<open>root.find('.//lineinfo') or root.find('lineinfo')\<close>.
\<close>

fun descendants :: "xml \<Rightarrow> xml list" where
  "descendants (Element t x cs) = concat (map (\<lambda>c. c # descendants c) cs)"

definition findall_below :: "ustr \<Rightarrow> xml \<Rightarrow> xml list" where
  "findall_below t e = filter (\<lambda>d. tag d = t) (descendants e)"

definition find_child :: "ustr \<Rightarrow> xml \<Rightarrow> xml option" where
  "find_child t e = List.find (\<lambda>c. tag c = t) (children e)"

definition findtext :: "ustr \<Rightarrow> xml \<Rightarrow> ustr option" where
  "findtext t e =
     map_option (\<lambda>c. case elem_text c of None \<Rightarrow> [] | Some x \<Rightarrow> x) (find_child t e)"

definition find_lineinfo :: "xml \<Rightarrow> xml option" where
  "find_lineinfo root =
     (case findall_below (str ''lineinfo'') root of
        [] \<Rightarrow> find_child (str ''lineinfo'') root
      | d # ds \<Rightarrow> if children d \<noteq> [] then Some d else find_child (str ''lineinfo'') root)"

text \<open>
  The remaining time: the parts between colons, each through \<^verbatim>\<open>int()\<close>; any
  exception, and four parts or more, leave it unknown.
\<close>

definition parse_remain :: "runtime \<Rightarrow> ustr \<Rightarrow> int option" where
  "parse_remain U remain_txt =
     (case collect (\<lambda>p. case py_int U p of Inl e \<Rightarrow> Inl e | Inr i \<Rightarrow> Inr [i])
             (split 58 remain_txt) of
        Inl e \<Rightarrow> None
      | Inr parts \<Rightarrow>
          (case parts of
             [a, b, c] \<Rightarrow> Some (a * 3600 + b * 60 + c)
           | [a, b] \<Rightarrow> Some (a * 60 + b)
           | [a] \<Rightarrow> Some a
           | _ \<Rightarrow> None))"

definition xml_session :: "runtime \<Rightarrow> xml \<Rightarrow> ustr option \<times> ustr option \<times> int option" where
  "xml_session U root =
     (case find_lineinfo root of
        None \<Rightarrow> (None, None, None)
      | Some lineinfo \<Rightarrow>
          (let session_name =
                 strip U (first_truthy (findtext (str ''seance'') lineinfo)
                                       (findtext (str ''race'') lineinfo));
               flag' =
                 strip U (first_truthy (findtext (str ''messageDC2'') lineinfo)
                                       (findtext (str ''messageDC1'') lineinfo));
               remain_txt = strip U (first_truthy (findtext (str ''remain'') lineinfo) None)
           in (Some session_name, Some flag',
               if remain_txt \<noteq> [] then parse_remain U remain_txt else None)))"

text \<open>
  The car nodes, the dictionary of a node's children (a later child of the same tag
  replaces an earlier one) and \<^verbatim>\<open>cget\<close>. The row is built before the test on
  \<^verbatim>\<open>num\<close>, so both lap times are parsed for every node. An exception anywhere in the
  loop empties the list (\<^verbatim>\<open>except Exception: cars = []\<close>).
\<close>

definition car_nodes :: "xml \<Rightarrow> xml list" where
  "car_nodes root =
     concat (map (\<lambda>t. findall_below t root)
               [str ''ligne'', str ''line'', str ''car'', str ''row'', str ''item''])"

definition children_dict :: "runtime \<Rightarrow> xml \<Rightarrow> ustr \<Rightarrow> ustr option" where
  "children_dict U node =
     map_of (rev (map (\<lambda>c. (lower U (tag c),
                              strip U (case elem_text c of None \<Rightarrow> [] | Some x \<Rightarrow> x)))
                      (children node)))"

fun cget :: "(ustr \<Rightarrow> ustr option) \<Rightarrow> ustr list \<Rightarrow> ustr" where
  "cget d [] = []"
| "cget d (a # alts) =
     (case d a of None \<Rightarrow> cget d alts | Some v \<Rightarrow> if v \<noteq> [] then v else cget d alts)"

definition node_field :: "runtime \<Rightarrow> xml \<Rightarrow> ustr list \<Rightarrow> ustr" where
  "node_field U node alts = cget (children_dict U node) alts"

definition num_tags :: "ustr list" where
  "num_tags = [str ''num'', str ''number'', str ''car'', str ''#'', str ''n'',
               [110, 176], [110, 186]]"

definition who_tags :: "ustr list" where
  "who_tags = [str ''team'', str ''drivers'', str ''driver'', str ''pilote'']"

definition last_tags :: "ustr list" where
  "last_tags = [str ''last'', str ''lastlap'', str ''last_time'', str ''dernier'']"

definition best_tags :: "ustr list" where
  "best_tags = [str ''best'', str ''bestlap'', str ''best_time'', str ''meilleur'']"

definition state_tags :: "ustr list" where
  "state_tags = [str ''state'', str ''now'', str ''status'']"

definition xml_row :: "runtime \<Rightarrow> xml \<Rightarrow> py_error + car list" where
  "xml_row U node =
     (let num = node_field U node num_tags;
          who = node_field U node who_tags;
          last_raw = node_field U node last_tags;
          best_raw = node_field U node best_tags;
          st = node_field U node state_tags
      in case parse_lap_time U last_raw of
           Inl e \<Rightarrow> Inl e
         | Inr last_lap \<Rightarrow>
             (case parse_lap_time U best_raw of
                Inl e \<Rightarrow> Inl e
              | Inr best_lap \<Rightarrow>
                  Inr (if num \<noteq> []
                       then [\<lparr>car_num = num, car_state = st, car_driver = who,
                              car_last_lap = last_lap, car_best_lap = best_lap\<rparr>]
                       else [])))"

definition xml_cars :: "runtime \<Rightarrow> xml \<Rightarrow> car list" where
  "xml_cars U root =
     (case collect (xml_row U) (car_nodes root) of Inl e \<Rightarrow> [] | Inr cs \<Rightarrow> cs)"

section \<open>The HTML path\<close>

text \<open>
  \<open>find_all names el\<close> is \<^verbatim>\<open>el.find_all(names)\<close>: the tags below \<open>el\<close> with one of the
  names, in document order. \<open>node_text\<close> is \<^verbatim>\<open>_text\<close>: \<^verbatim>\<open>get_text(separator=' ',
  strip=True)\<close> joins the stripped, non-empty strings below the tag with blanks; then
  whitespace runs collapse and the result is stripped.
\<close>

fun descendants_html :: "html \<Rightarrow> html list" where
  "descendants_html (Text s) = []"
| "descendants_html (Tag n cs) = concat (map (\<lambda>c. c # descendants_html c) cs)"

fun strings :: "html \<Rightarrow> ustr list" where
  "strings (Text s) = [s]"
| "strings (Tag n cs) = concat (map strings cs)"

fun named :: "ustr list \<Rightarrow> html \<Rightarrow> bool" where
  "named names (Text s) = False"
| "named names (Tag n cs) = (n \<in> set names)"

definition find_all :: "ustr list \<Rightarrow> html \<Rightarrow> html list" where
  "find_all names el = filter (named names) (descendants_html el)"

definition get_text :: "runtime \<Rightarrow> html \<Rightarrow> ustr" where
  "get_text U el = join (str '' '') (filter (\<lambda>x. x \<noteq> []) (map (strip U) (strings el)))"

definition node_text :: "runtime \<Rightarrow> html \<Rightarrow> ustr" where
  "node_text U el = strip U (collapse_spaces U (get_text U el))"

text \<open>
  In the module with the XML path \<^verbatim>\<open>soup\<close> is \<^verbatim>\<open>None\<close> unless the HTML page was
  fetched, and \<^verbatim>\<open>soup.find_all('table')\<close> is called either way.
\<close>

definition soup_find_all :: "ustr list \<Rightarrow> html option \<Rightarrow> py_error + html list" where
  "soup_find_all names soup =
     (case soup of None \<Rightarrow> Inl AttributeError | Some s \<Rightarrow> Inr (find_all names s))"

definition is_live_table :: "runtime \<Rightarrow> html \<Rightarrow> bool" where
  "is_live_table U candidate =
     (let headers = find_all [str ''th'', str ''td''] candidate;
          head_txt = join (str '' '') (map (\<lambda>h. lower U (node_text U h)) (take 15 headers))
      in list_ex (contains head_txt)
           [str ''pos'', str ''now'', str ''num'', str ''team'', str ''drivers'',
            str ''best'', str ''last''])"

definition locate_table :: "runtime \<Rightarrow> html list \<Rightarrow> html option" where
  "locate_table U tables =
     (case List.find (is_live_table U) tables of
        Some t \<Rightarrow> Some t
      | None \<Rightarrow> (case tables of [] \<Rightarrow> None | t # ts \<Rightarrow> Some t))"

text \<open>
  The header row is the first row with a known label among its \<^verbatim>\<open>th\<close> cells (its
  \<^verbatim>\<open>td\<close> cells when it has no \<^verbatim>\<open>th\<close>); the data rows are the rows after it, which
  \<open>split_at_header\<close> returns with it.
\<close>

definition looks_like_header :: "runtime \<Rightarrow> html \<Rightarrow> bool" where
  "looks_like_header U tr =
     (let ths = find_all [str ''th''] tr;
          tds = find_all [str ''td''] tr;
          cells = (if ths \<noteq> [] then ths else tds);
          labels = map (\<lambda>c. lower U (node_text U c)) cells
      in list_ex (\<lambda>lbl. lbl \<in> set labels)
           [str ''pos'', str ''now'', str ''num'', str ''#'', str ''team'', str ''drivers'',
            str ''last'', str ''best'', str ''best time''])"

fun split_at_header :: "runtime \<Rightarrow> html list \<Rightarrow> (html \<times> html list) option" where
  "split_at_header U [] = None"
| "split_at_header U (tr # rest) =
     (if looks_like_header U tr then Some (tr, rest) else split_at_header U rest)"

text \<open>\<^verbatim>\<open>labels.index(a)\<close> for the first synonym \<^verbatim>\<open>a\<close> among the labels.\<close>

fun index_of :: "ustr \<Rightarrow> ustr list \<Rightarrow> nat" where
  "index_of a [] = 0"
| "index_of a (l # ls) = (if l = a then 0 else Suc (index_of a ls))"

fun idx :: "ustr list \<Rightarrow> ustr list \<Rightarrow> nat option" where
  "idx labels [] = None"
| "idx labels (a # alts) = (if a \<in> set labels then Some (index_of a labels) else idx labels alts)"

definition header_labels :: "runtime \<Rightarrow> html \<Rightarrow> ustr list" where
  "header_labels U header_row =
     map (\<lambda>c. lower U (node_text U c)) (find_all [str ''th'', str ''td''] header_row)"

definition col_idx :: "ustr list \<Rightarrow> ustr \<Rightarrow> nat option" where
  "col_idx labels key =
     (case map_of
        [(str ''pos'', idx labels [str ''pos'', str ''position'']),
         (str ''state'', idx labels [str ''now'', str ''state'', str ''status'']),
         (str ''num'', idx labels [str ''num'', str ''#'', str ''car'', [110, 176], [110, 186]]),
         (str ''team'', idx labels [str ''team'', str ''name'']),
         (str ''drivers'',
            idx labels [str ''drivers'', str ''driver'', str ''pilote'', str ''pilotes'']),
         (str ''last'',
            idx labels [str ''last'', str ''last time'', str ''last lap'', str ''dernier'',
                        str ''dernier tour'']),
         (str ''best'',
            idx labels [str ''best'', str ''best time'', str ''best lap'', str ''meilleur'',
                        str ''meilleur tour'']),
         (str ''lap'', idx labels [str ''lap'', str ''laps'', str ''tour'', str ''tours'']),
         (str ''gap'', idx labels [str ''gap'', str ''ecart'', [233, 99, 97, 114, 116]])] key of
        None \<Rightarrow> None
      | Some i \<Rightarrow> i)"

definition get_cell :: "runtime \<Rightarrow> (ustr \<Rightarrow> nat option) \<Rightarrow> html list \<Rightarrow> ustr \<Rightarrow> ustr" where
  "get_cell U ci tds idx_name =
     (case ci idx_name of
        None \<Rightarrow> []
      | Some i \<Rightarrow> if i < length tds then node_text U (tds ! i) else [])"

definition html_row :: "runtime \<Rightarrow> (ustr \<Rightarrow> nat option) \<Rightarrow> html \<Rightarrow> py_error + car list" where
  "html_row U ci tr =
     (let tds = find_all [str ''td''] tr
      in if tds = [] then Inr []
         else
           let num = get_cell U ci tds (str ''num'')
           in if num = [] then Inr []
              else
                let team_txt = get_cell U ci tds (str ''team'');
                    drv_txt = get_cell U ci tds (str ''drivers'');
                    who = (if team_txt \<noteq> [] then team_txt else drv_txt);
                    last_raw = get_cell U ci tds (str ''last'');
                    best_raw = get_cell U ci tds (str ''best'');
                    st = get_cell U ci tds (str ''state'')
                in case parse_lap_time U last_raw of
                     Inl e \<Rightarrow> Inl e
                   | Inr last_lap \<Rightarrow>
                       (case parse_lap_time U best_raw of
                          Inl e \<Rightarrow> Inl e
                        | Inr best_lap \<Rightarrow>
                            Inr [\<lparr>car_num = num, car_state = st, car_driver = who,
                                  car_last_lap = last_lap, car_best_lap = best_lap\<rparr>]))"

definition table_rows :: "runtime \<Rightarrow> html list \<Rightarrow> py_error + car list" where
  "table_rows U trs =
     (case split_at_header U trs of
        None \<Rightarrow> Inr []
      | Some (header_row, data_rows) \<Rightarrow>
          collect (html_row U (col_idx (header_labels U header_row))) data_rows)"

definition html_cars :: "runtime \<Rightarrow> html \<Rightarrow> py_error + car list" where
  "html_cars U table = table_rows U (find_all [str ''tr''] table)"

section \<open>The poll cycle\<close>

text \<open>
  The last lines of \<^verbatim>\<open>getRaceState\<close>: a fresh value replaces a cached one only when
  it is truthy (for the remaining time: when it is not \<^verbatim>\<open>None\<close>). The fresh
  \<^verbatim>\<open>flag\<close> and \<^verbatim>\<open>remaining\<close> are written \<open>flag'\<close> and \<open>remaining'\<close>, apart from
  the fields of the session descriptor.
\<close>

definition update_cache ::
  "ustr option \<Rightarrow> ustr option \<Rightarrow> int option \<Rightarrow> service \<Rightarrow> service" where
  "update_cache session_name flag' remaining' self =
     (let s1 = (if session_name \<noteq> None \<and> session_name \<noteq> Some []
                then self\<lparr>last_session_name := session_name\<rparr> else self);
          s2 = (if flag' \<noteq> None \<and> flag' \<noteq> Some [] then s1\<lparr>last_flag := flag'\<rparr> else s1)
      in if remaining' \<noteq> None then s2\<lparr>last_remaining := remaining'\<rparr> else s2)"

definition fetch_failed :: "world \<Rightarrow> service \<Rightarrow> (py_error + race_state) \<times> service" where
  "fetch_failed w self =
     (let self' = self\<lparr>last_fetch_ok := False\<rparr>
      in (Inr \<lparr>cars = [], session = session_of self' (now w) False\<rparr>, self'))"

text \<open>
  \<^verbatim>\<open>getRaceState\<close> of \<^verbatim>\<open>livetiming/ris2cvrt.py\<close>, from the line
  \<^verbatim>\<open>soup = None\<close> on: \<open>root\<close> is the parsed XML when \<^verbatim>\<open>xml_text\<close> is not
  \<^verbatim>\<open>None\<close>, \<open>soup\<close> the parsed page otherwise. Logging writes to the log only and every
  call of it is inside a \<^verbatim>\<open>try\<close>; it is left out. An exception leaves the method before
  the cache is written. \<^verbatim>\<open>BeautifulSoup(html, 'html.parser')\<close> stands outside every
  \<^verbatim>\<open>try\<close>, after \<^verbatim>\<open>_last_fetch_ok\<close> is set: when it raises, the poll raises.
\<close>

definition scrape ::
  "runtime \<Rightarrow> world \<Rightarrow> xml option \<Rightarrow> html option \<Rightarrow> service \<Rightarrow>
     (py_error + race_state) \<times> service" where
  "scrape U w root soup self =
     (let (session_name, flag', remaining') =
            (case root of Some r \<Rightarrow> xml_session U r | None \<Rightarrow> (None, None, None))
      in case soup_find_all [str ''table''] soup of
           Inl e \<Rightarrow> (Inl e, self)
         | Inr tables \<Rightarrow>
             (let table = locate_table U tables;
                  xml_rows = (case root of Some r \<Rightarrow> xml_cars U r | None \<Rightarrow> [])
              in case (if xml_rows = []
                       then (case table of Some t \<Rightarrow> html_cars U t | None \<Rightarrow> Inr xml_rows)
                       else Inr xml_rows) of
                   Inl e \<Rightarrow> (Inl e, self)
                 | Inr cs \<Rightarrow>
                     (let self' = update_cache session_name flag' remaining' self
                      in (Inr \<lparr>cars = cs, session = session_of self' (now w) True\<rparr>, self'))))"

text \<open>
  The first part of \<^verbatim>\<open>getRaceState\<close>: the candidates are probed and the accepted
  text is parsed; a text that does not parse counts as no XML. \<open>select_xml\<close> returns the
  root, if any, and the number of requests sent.
\<close>

definition select_xml :: "runtime \<Rightarrow> world \<Rightarrow> xml option \<times> nat" where
  "select_xml U w =
     (let (xml_text, k) = probe_xml U w 0 (xml_candidates DATA_SOURCE_URL)
      in ((case xml_text of None \<Rightarrow> None | Some x \<Rightarrow> fromstring U x), k))"

definition getRaceState ::
  "runtime \<Rightarrow> world \<Rightarrow> service \<Rightarrow> (py_error + race_state) \<times> service" where
  "getRaceState U w self =
     (let (root, k) = select_xml U w
      in case root of
           Some r \<Rightarrow> scrape U w (Some r) None self
         | None \<Rightarrow>
             (case fetch_html w k DATA_SOURCE_URL of
                None \<Rightarrow> fetch_failed w self
              | Some page \<Rightarrow>
                  (case html_parser U page of
                     None \<Rightarrow> (Inl ParserRejectedMarkup, self\<lparr>last_fetch_ok := True\<rparr>)
                   | Some soup \<Rightarrow>
                       scrape U w None (Some soup) (self\<lparr>last_fetch_ok := True\<rparr>))))"

text \<open>
  \<^verbatim>\<open>getRaceState\<close> of \<^verbatim>\<open>livetiming/service/plugins/ris2cvrt.py\<close>, the module the
  entry point of \<^verbatim>\<open>setup.py\<close> names: the HTML page only, and no session extraction.
\<close>

definition plugin_getRaceState ::
  "runtime \<Rightarrow> world \<Rightarrow> service \<Rightarrow> (py_error + race_state) \<times> service" where
  "plugin_getRaceState U w self =
     (case fetch_html w 0 DATA_SOURCE_URL of
        None \<Rightarrow> fetch_failed w self
      | Some page \<Rightarrow>
          (let self1 = self\<lparr>last_fetch_ok := True\<rparr>
           in case html_parser U page of
                None \<Rightarrow> (Inl ParserRejectedMarkup, self1)
              | Some soup \<Rightarrow>
                  (let table = locate_table U (find_all [str ''table''] soup)
                   in case (case table of Some t \<Rightarrow> html_cars U t | None \<Rightarrow> Inr []) of
                        Inl e \<Rightarrow> (Inl e, self1)
                      | Inr cs \<Rightarrow>
                          (let self' = update_cache None None None self1
                           in (Inr \<lparr>cars = cs, session = session_of self' (now w) True\<rparr>,
                               self')))))"

section \<open>Notions used in the statements\<close>

text \<open>
  The grammar of a lap time, as the specification words it: an optional minutes part and a
  colon, one or two digits of seconds, and optionally a point or a comma with one to three
  digits. \<open>lap_text\<close> is the text of such a reading and \<open>lap_fields\<close> says that its parts
  are well formed; \<open>decimal_value\<close> is the number a digit string denotes, \<open>lap_whole\<close> is
  \<open>minutes * 60 + seconds\<close> and \<open>lap_millis\<close> the fraction padded to three digits.
\<close>

definition decimal_value :: "runtime \<Rightarrow> ustr \<Rightarrow> int" where
  "decimal_value U ds =
     foldl (\<lambda>a c. 10 * a + int (case decimal U c of None \<Rightarrow> 0 | Some d \<Rightarrow> d)) 0 ds"

definition lap_text :: "ustr option \<Rightarrow> ustr \<Rightarrow> (nat \<times> ustr) option \<Rightarrow> ustr" where
  "lap_text mi se fr =
     (case mi of None \<Rightarrow> [] | Some ms \<Rightarrow> ms @ [58]) @ se @
     (case fr of None \<Rightarrow> [] | Some (sep, f) \<Rightarrow> sep # f)"

definition lap_fields :: "runtime \<Rightarrow> ustr option \<Rightarrow> ustr \<Rightarrow> (nat \<times> ustr) option \<Rightarrow> bool" where
  "lap_fields U mi se fr =
     ((case mi of None \<Rightarrow> True | Some ms \<Rightarrow> ms \<noteq> [] \<and> list_all (is_decimal U) ms) \<and>
      se \<noteq> [] \<and> length se \<le> 2 \<and> list_all (is_decimal U) se \<and>
      (case fr of
         None \<Rightarrow> True
       | Some (sep, f) \<Rightarrow>
           (sep = 46 \<or> sep = 44) \<and> f \<noteq> [] \<and> length f \<le> 3 \<and> list_all (is_decimal U) f))"

definition lap_whole :: "runtime \<Rightarrow> ustr option \<Rightarrow> ustr \<Rightarrow> int" where
  "lap_whole U mi se =
     (case mi of None \<Rightarrow> 0 | Some ms \<Rightarrow> decimal_value U ms) * 60 + decimal_value U se"

definition lap_millis :: "runtime \<Rightarrow> (nat \<times> ustr) option \<Rightarrow> int" where
  "lap_millis U fr =
     decimal_value U (ljust 3 48 (case fr of None \<Rightarrow> str ''0'' | Some (sep, f) \<Rightarrow> f))"

text \<open>
  An interpreter with no table beyond ASCII and the default digit limit. Its XML parser
  accepts nothing; its HTML parser reads a page without markup (the document holds the
  text, and nothing when the page is empty). The examples below give it the parse of the
  documents they serve.
\<close>

definition ascii_runtime :: runtime where
  "ascii_runtime =
     \<lparr>decimal_ext = (\<lambda>c. None), space_ext = (\<lambda>c. False), lower_ext = (\<lambda>s. s),
      max_str_digits = 4300, fromstring = (\<lambda>x. None),
      html_parser = (\<lambda>x. Some (Tag (str ''[document]'') (if x = [] then [] else [Text x])))\<rparr>"

text \<open>
  Notions for the poll cycle: the cars the HTML path reads off a parsed page, the three
  cached fields of the service, and truthiness of a cached text.
\<close>

definition page_cars :: "runtime \<Rightarrow> html \<Rightarrow> py_error + car list" where
  "page_cars U soup =
     (case locate_table U (find_all [str ''table''] soup) of
        Some t \<Rightarrow> html_cars U t
      | None \<Rightarrow> Inr [])"

definition cache :: "service \<Rightarrow> ustr option \<times> ustr option \<times> int option" where
  "cache self = (last_session_name self, last_flag self, last_remaining self)"

definition truthy :: "ustr option \<Rightarrow> bool" where
  "truthy v = (v \<noteq> None \<and> v \<noteq> Some [])"

text \<open>
  Example inputs: the service as \<^verbatim>\<open>__init__\<close> leaves it and one with a filled cache;
  the XML URL; two XML documents with the trees \<^verbatim>\<open>ET.fromstring\<close> builds for them (the
  second has a row with no car number); and networks that serve them, are offline, or
  answer 304 or 403 for the page.
\<close>

definition init_service :: service where
  "init_service =
     \<lparr>last_fetch_ok = False, last_session_name = None, last_flag = None, last_remaining = None\<rparr>"

definition cached_service :: service where
  "cached_service =
     \<lparr>last_fetch_ok = True, last_session_name = Some (str ''Race 1''),
      last_flag = Some (str ''GREEN FLAG''), last_remaining = Some 120\<rparr>"

definition xml_url :: ustr where
  "xml_url = str ''https://results.ris-timing.be/2cvrt/live/live2025.xml''"

definition xml_doc_text :: ustr where
  "xml_doc_text =
     str ''<?xml version='' @ [34] @ str ''1.0'' @ [34] @
     str ''?><live><item><num>7</num><last>1:02.5</last></item></live>''"

definition xml_doc_root :: xml where
  "xml_doc_root =
     Element (str ''live'') None
       [Element (str ''item'') None
          [Element (str ''num'') (Some (str ''7'')) [],
           Element (str ''last'') (Some (str ''1:02.5'')) []]]"

definition xml_runtime :: runtime where
  "xml_runtime =
     ascii_runtime\<lparr>fromstring := (\<lambda>x. if x = xml_doc_text then Some xml_doc_root else None)\<rparr>"

definition xml_world :: world where
  "xml_world =
     \<lparr>http_get = (\<lambda>k url. if url = xml_url then Response 200 xml_doc_text else RequestException),
      now = 1700000000\<rparr>"

definition bare_xml_text :: ustr where
  "bare_xml_text =
     str ''<?xml version='' @ [34] @ str ''1.0'' @ [34] @
     str ''?><live><row><team>Les Tortues</team></row></live>''"

definition bare_xml_root :: xml where
  "bare_xml_root =
     Element (str ''live'') None
       [Element (str ''row'') None [Element (str ''team'') (Some (str ''Les Tortues'')) []]]"

definition bare_xml_runtime :: runtime where
  "bare_xml_runtime =
     ascii_runtime\<lparr>fromstring := (\<lambda>x. if x = bare_xml_text then Some bare_xml_root else None)\<rparr>"

definition bare_xml_world :: world where
  "bare_xml_world =
     \<lparr>http_get = (\<lambda>k url. if url = xml_url then Response 200 bare_xml_text else RequestException),
      now = 1700000000\<rparr>"

definition offline_world :: world where
  "offline_world = \<lparr>http_get = (\<lambda>k url. RequestException), now = 1700000000\<rparr>"

definition not_modified_world :: world where
  "not_modified_world =
     \<lparr>http_get = (\<lambda>k url. if url = DATA_SOURCE_URL then Response 304 [] else RequestException),
      now = 1700000000\<rparr>"

definition forbidden_world :: world where
  "forbidden_world =
     \<lparr>http_get = (\<lambda>k url. if url = DATA_SOURCE_URL then Response 403 (str ''Forbidden'')
                           else Response 404 []),
      now = 1700000000\<rparr>"

text \<open>
  An HTML page with one car, the tree \<^verbatim>\<open>BeautifulSoup\<close> builds for it, and a network
  that serves it (and answers 404 for the XML URL).
\<close>

definition th_cell :: "string \<Rightarrow> html" where
  "th_cell s = Tag (str ''th'') [Text (str s)]"

definition td_cell :: "string \<Rightarrow> html" where
  "td_cell s = Tag (str ''td'') [Text (str s)]"

definition table_row :: "html list \<Rightarrow> html" where
  "table_row cells = Tag (str ''tr'') cells"

definition live_page_text :: ustr where
  "live_page_text =
     str ''<table><tr><th>Num</th><th>Drivers</th><th>Last</th></tr>'' @
     str ''<tr><td>12</td><td>Bob</td><td>1:02.5</td></tr></table>''"

definition live_page :: html where
  "live_page =
     Tag (str ''[document]'')
       [Tag (str ''table'')
          [table_row [th_cell ''Num'', th_cell ''Drivers'', th_cell ''Last''],
           table_row [td_cell ''12'', td_cell ''Bob'', td_cell ''1:02.5'']]]"

definition page_runtime :: runtime where
  "page_runtime =
     ascii_runtime\<lparr>html_parser :=
       (\<lambda>x. if x = live_page_text then Some live_page else html_parser ascii_runtime x)\<rparr>"

definition page_world :: "int \<Rightarrow> world" where
  "page_world t =
     \<lparr>http_get = (\<lambda>k url. if url = DATA_SOURCE_URL then Response 200 live_page_text
                           else Response 404 []),
      now = t\<rparr>"

text \<open>
  Two XML documents more: one car, and the same car followed by a node that has no car
  number and a last lap with a minutes field of 401 digits.
\<close>

definition good_node :: xml where
  "good_node = Element (str ''item'') None [Element (str ''num'') (Some (str ''7'')) []]"

definition overflow_node :: xml where
  "overflow_node =
     Element (str ''item'') None
       [Element (str ''last'') (Some (49 # replicate 400 48 @ str '':00'')) []]"

definition good_doc :: xml where
  "good_doc = Element (str ''live'') None [good_node]"

definition overflow_doc :: xml where
  "overflow_doc = Element (str ''live'') None [good_node, overflow_node]"

text \<open>
  Tables of one car under different header rows: the driver column labelled
  \<^verbatim>\<open>Drivers\<close> or \<^verbatim>\<open>Pilotes\<close>, beside a column \<^verbatim>\<open>Num\<close> (and below a title
  row), beside a column \<^verbatim>\<open>Car\<close>, and beside the columns \<^verbatim>\<open>Num\<close> and
  \<^verbatim>\<open>Driver\<close>.
\<close>

definition title_row :: html where
  "title_row = table_row [td_cell ''Live timing'']"

definition bob_row :: html where
  "bob_row = table_row [td_cell ''12'', td_cell ''Bob'']"

definition alice_bob_row :: html where
  "alice_bob_row = table_row [td_cell ''12'', td_cell ''Alice'', td_cell ''Bob'']"

definition num_drivers_table :: html where
  "num_drivers_table =
     Tag (str ''table'')
       [title_row, table_row [th_cell ''Num'', th_cell ''Drivers''], bob_row]"

definition num_pilotes_table :: html where
  "num_pilotes_table =
     Tag (str ''table'')
       [title_row, table_row [th_cell ''Num'', th_cell ''Pilotes''], bob_row]"

definition car_drivers_table :: html where
  "car_drivers_table =
     Tag (str ''table'') [table_row [th_cell ''Car'', th_cell ''Drivers''], bob_row]"

definition car_pilotes_table :: html where
  "car_pilotes_table =
     Tag (str ''table'') [table_row [th_cell ''Car'', th_cell ''Pilotes''], bob_row]"

definition driver_drivers_table :: html where
  "driver_drivers_table =
     Tag (str ''table'')
       [table_row [th_cell ''Num'', th_cell ''Driver'', th_cell ''Drivers''], alice_bob_row]"

definition driver_pilotes_table :: html where
  "driver_pilotes_table =
     Tag (str ''table'')
       [table_row [th_cell ''Num'', th_cell ''Driver'', th_cell ''Pilotes''], alice_bob_row]"

section \<open>Properties of the lap-time normalizer\<close>

lemma decimal_lt_10: "decimal U c = Some d \<Longrightarrow> d < 10"
  by (auto simp: decimal_def split: if_splits option.splits)

lemma decimal_not_space: "is_decimal U c \<Longrightarrow> \<not> isspace U c"
  by (auto simp: is_decimal_def decimal_def isspace_def split: if_splits)

lemma not_decimal_punct:
  "\<not> is_decimal U 58" "\<not> is_decimal U 46" "\<not> is_decimal U 44" "\<not> is_decimal U 10"
  by (simp_all add: is_decimal_def decimal_def)

lemma is_decimal_zero: "is_decimal U 48"
  by (simp add: is_decimal_def decimal_def)

lemma to_ascii_decimal: "decimal U c = Some d \<Longrightarrow> to_ascii U c = Some (48 + d)"
  by (auto simp: to_ascii_def decimal_def isspace_def split: if_splits option.splits)

lemma to_ascii_digit:
  assumes "is_decimal U c"
  shows "to_ascii U c \<noteq> None" and "ascii_digit (the (to_ascii U c))"
    and "int (the (to_ascii U c)) - 48 = int (case decimal U c of None \<Rightarrow> 0 | Some d \<Rightarrow> d)"
proof -
  from assms obtain d where d: "decimal U c = Some d"
    by (auto simp: is_decimal_def)
  then have a: "to_ascii U c = Some (48 + d)" by (rule to_ascii_decimal)
  from d have "d < 10" by (rule decimal_lt_10)
  with a d show "to_ascii U c \<noteq> None" and "ascii_digit (the (to_ascii U c))"
    and "int (the (to_ascii U c)) - 48 = int (case decimal U c of None \<Rightarrow> 0 | Some d \<Rightarrow> d)"
    by (simp_all add: ascii_digit_def)
qed

lemma underscores_ok_digits:
  "a \<noteq> [] \<Longrightarrow> list_all ascii_digit a \<Longrightarrow> underscores_ok a"
  by (induction a rule: underscores_ok.induct) (auto simp: ascii_digit_def)

lemma foldl_digits_value:
  "list_all (is_decimal U) ds \<Longrightarrow>
   foldl (\<lambda>a c. 10 * a + (int c - 48)) acc (map (\<lambda>c. the (to_ascii U c)) ds) =
   foldl (\<lambda>a c. 10 * a + int (case decimal U c of None \<Rightarrow> 0 | Some d \<Rightarrow> d)) acc ds"
  by (induction ds arbitrary: acc) (simp_all add: to_ascii_digit(3))

lemma py_int_digits:
  assumes ne: "ds \<noteq> []" and dec: "list_all (is_decimal U) ds"
  shows "py_int U ds =
           (if over_digit_limit U (length ds) then Inl ValueError
            else Inr (decimal_value U ds))"
proof -
  define a where "a = map (\<lambda>c. the (to_ascii U c)) ds"
  have all: "list_all (\<lambda>c. to_ascii U c \<noteq> None) ds"
    using dec by (auto simp: list_all_iff dest!: to_ascii_digit(1))
  have dig: "list_all ascii_digit a"
    using dec by (auto simp: a_def list_all_iff to_ascii_digit(2))
  have ane: "a \<noteq> []" using ne by (simp add: a_def)
  then obtain x xs where ax: "a = x # xs" by (cases a) auto
  with dig have x: "ascii_digit x" by simp
  have drop: "dropWhile ascii_blank a = a"
    using x by (simp add: ax ascii_blank_def ascii_digit_def)
  have hd: "hd a \<noteq> 43" "hd a \<noteq> 45" "hd a \<noteq> 95"
    using x by (auto simp: ax ascii_digit_def)
  have tw: "takeWhile (\<lambda>c. ascii_digit c \<or> c = 95) a = a"
    using dig by (auto simp: list_all_iff intro: takeWhile_eq_all_conv[THEN iffD2])
  have dw: "dropWhile (\<lambda>c. ascii_digit c \<or> c = 95) a = []"
    using dig by (auto simp: list_all_iff)
  have fl: "filter ascii_digit a = a"
    using dig by (auto simp: list_all_iff)
  have uo: "underscores_ok a" using ane dig by (rule underscores_ok_digits)
  have val: "digits_value a = decimal_value U ds"
    unfolding digits_value_def decimal_value_def a_def using dec by (rule foldl_digits_value)
  have len: "length a = length ds" by (simp add: a_def)
  show ?thesis
    unfolding py_int_def Let_def a_def[symmetric]
    using all by (simp add: drop hd tw dw fl uo val ane len)
qed

lemma decimal_value_nonneg_aux:
  "0 \<le> acc \<Longrightarrow> 0 \<le> foldl (\<lambda>a c. 10 * a + int (case decimal U c of None \<Rightarrow> 0 | Some d \<Rightarrow> d)) acc ds"
  by (induction ds arbitrary: acc) simp_all

lemma decimal_value_nonneg: "0 \<le> decimal_value U ds"
  unfolding decimal_value_def by (rule decimal_value_nonneg_aux) simp

lemma strip_last: "strip U s \<noteq> [] \<Longrightarrow> \<not> isspace U (last (strip U s))"
proof -
  assume ne: "strip U s \<noteq> []"
  let ?r = "dropWhile (isspace U) (rev (dropWhile (isspace U) s))"
  from ne have r: "?r \<noteq> []" by (simp add: strip_def)
  then have "\<not> isspace U (hd ?r)" by (rule hd_dropWhile)
  moreover have "last (strip U s) = hd ?r"
    using r by (simp add: strip_def last_rev)
  ultimately show ?thesis by simp
qed

lemma isspace_newline: "isspace U 10"
  by (simp add: isspace_def)

lemma takeWhile_all: "list_all P xs \<Longrightarrow> \<not> P y \<Longrightarrow> takeWhile P (xs @ y # ys) = xs"
  by (induction xs) simp_all

lemma dropWhile_all: "list_all P xs \<Longrightarrow> \<not> P y \<Longrightarrow> dropWhile P (xs @ y # ys) = y # ys"
  by (induction xs) simp_all

lemma takeWhile_all_nil: "list_all P xs \<Longrightarrow> takeWhile P xs = xs"
  by (induction xs) simp_all

lemma dropWhile_all_nil: "list_all P xs \<Longrightarrow> dropWhile P xs = []"
  by (induction xs) simp_all

lemma match_tail_complete:
  assumes "se \<noteq> []" "length se \<le> 2" "list_all (is_decimal U) se"
    and "case fr of None \<Rightarrow> True
         | Some (sep, f) \<Rightarrow> (sep = 46 \<or> sep = 44) \<and> f \<noteq> [] \<and> length f \<le> 3 \<and> list_all (is_decimal U) f"
  shows "match_tail U g1 (se @ (case fr of None \<Rightarrow> [] | Some (sep, f) \<Rightarrow> sep # f)) =
         Some (g1, se, map_option snd fr)"
proof (cases fr)
  case None
  with assms show ?thesis
    by (simp add: match_tail_def takeWhile_all_nil dropWhile_all_nil at_end_def)
next
  case (Some p)
  obtain sep f where p: "p = (sep, f)" by (cases p)
  with Some assms(4) have sep: "sep = 46 \<or> sep = 44" and f: "f \<noteq> []" "length f \<le> 3"
    "list_all (is_decimal U) f" by simp_all
  from sep have nd: "\<not> is_decimal U sep" by (auto simp: not_decimal_punct)
  have tw: "takeWhile (is_decimal U) (se @ sep # f) = se"
    using assms(3) nd by (rule takeWhile_all)
  have dw: "dropWhile (is_decimal U) (se @ sep # f) = sep # f"
    using assms(3) nd by (rule dropWhile_all)
  show ?thesis
    using assms(1,2) sep f
    by (simp add: Some p match_tail_def tw dw takeWhile_all_nil dropWhile_all_nil at_end_def)
qed

lemma match_lap_complete:
  assumes "lap_fields U mi se fr"
  shows "match_lap U (lap_text mi se fr) = Some (mi, se, map_option snd fr)"
proof -
  let ?tail = "se @ (case fr of None \<Rightarrow> [] | Some (sep, f) \<Rightarrow> sep # f)"
  from assms have se: "se \<noteq> []" "length se \<le> 2" "list_all (is_decimal U) se"
    and fr: "case fr of None \<Rightarrow> True
         | Some (sep, f) \<Rightarrow> (sep = 46 \<or> sep = 44) \<and> f \<noteq> [] \<and> length f \<le> 3 \<and> list_all (is_decimal U) f"
    by (simp_all add: lap_fields_def)
  have tail: "\<And>g1. match_tail U g1 ?tail = Some (g1, se, map_option snd fr)"
    using se fr by (rule match_tail_complete)
  show ?thesis
  proof (cases mi)
    case (Some ms)
    with assms have ms: "ms \<noteq> []" "list_all (is_decimal U) ms"
      by (simp_all add: lap_fields_def)
    have tw: "takeWhile (is_decimal U) (ms @ 58 # ?tail) = ms"
      using ms(2) not_decimal_punct(1) by (rule takeWhile_all)
    have dw: "dropWhile (is_decimal U) (ms @ 58 # ?tail) = 58 # ?tail"
      using ms(2) not_decimal_punct(1) by (rule dropWhile_all)
    show ?thesis
      using ms(1) by (simp add: Some lap_text_def match_lap_def tw dw tail)
  next
    case None
    have first: "(if takeWhile (is_decimal U) ?tail \<noteq> [] \<and> dropWhile (is_decimal U) ?tail \<noteq> [] \<and>
                     hd (dropWhile (is_decimal U) ?tail) = 58
                  then match_tail U (Some (takeWhile (is_decimal U) ?tail))
                         (tl (dropWhile (is_decimal U) ?tail))
                  else None) = None"
    proof (cases fr)
      case None
      then show ?thesis using se by (simp add: dropWhile_all_nil)
    next
      case (Some p)
      obtain sep f where p: "p = (sep, f)" by (cases p)
      with Some fr have sep: "sep = 46 \<or> sep = 44" by simp
      then have nd: "\<not> is_decimal U sep" by (auto simp: not_decimal_punct)
      have dw: "dropWhile (is_decimal U) (se @ sep # f) = sep # f"
        using se(3) nd by (rule dropWhile_all)
      show ?thesis using sep by (auto simp: Some p dw)
    qed
    show ?thesis
      using first by (simp add: None lap_text_def match_lap_def tail)
  qed
qed

lemma match_tail_sound:
  assumes m: "match_tail U g1 s = Some (h1, g2, g3)" and nl: "s = [] \<or> last s \<noteq> 10"
  shows "h1 = g1 \<and> g2 \<noteq> [] \<and> length g2 \<le> 2 \<and> list_all (is_decimal U) g2 \<and>
         (\<exists>fr. (case fr of None \<Rightarrow> True
                   | Some (sep, f) \<Rightarrow>
                       (sep = 46 \<or> sep = 44) \<and> f \<noteq> [] \<and> length f \<le> 3 \<and> list_all (is_decimal U) f) \<and>
               s = g2 @ (case fr of None \<Rightarrow> [] | Some (sep, f) \<Rightarrow> sep # f) \<and>
               g3 = map_option snd fr)"
proof -
  let ?g2 = "takeWhile (is_decimal U) s" and ?r = "dropWhile (is_decimal U) s"
  have s: "s = ?g2 @ ?r" by simp
  have d2: "list_all (is_decimal U) ?g2"
    by (auto simp: list_all_iff dest: set_takeWhileD)
  from m have g2ok: "?g2 \<noteq> []" "length ?g2 \<le> 2"
    by (auto simp: match_tail_def Let_def split: if_splits)
  show ?thesis
  proof (cases "?r \<noteq> [] \<and> (hd ?r = 46 \<or> hd ?r = 44)")
    case True
    let ?g3 = "takeWhile (is_decimal U) (tl ?r)" and ?e = "dropWhile (is_decimal U) (tl ?r)"
    from True m g2ok have res: "h1 = g1" "g2 = ?g2" "g3 = Some ?g3"
      and g3ok: "?g3 \<noteq> []" "length ?g3 \<le> 3" and e: "at_end ?e"
      by (auto simp: match_tail_def Let_def split: if_splits)
    have r: "?r = hd ?r # ?g3 @ ?e" using True by simp
    have "?e = []"
    proof (rule ccontr)
      assume "?e \<noteq> []"
      with e have e10: "?e = [10]" unfolding at_end_def by blast
      have "s = ?g2 @ hd ?r # ?g3 @ [10]"
        using s r e10 by metis
      then have "last s = 10" and "s \<noteq> []"
        by (metis append_is_Nil_conv last_ConsL last_ConsR last_appendR list.distinct(1) snoc_eq_iff_butlast)+
      with nl show False by simp
    qed
    with r have r': "?r = hd ?r # ?g3" by simp
    have d3: "list_all (is_decimal U) ?g3"
      by (auto simp: list_all_iff dest: set_takeWhileD)
    have "s = ?g2 @ (case Some (hd ?r, ?g3) of None \<Rightarrow> [] | Some (sep, f) \<Rightarrow> sep # f)"
      using s r' by simp
    with True res g2ok d2 g3ok d3 show ?thesis
      by (intro conjI exI[of _ "Some (hd ?r, ?g3)"]) simp_all
  next
    case False
    with m g2ok have res: "h1 = g1" "g2 = ?g2" "g3 = None" and e: "at_end ?r"
      by (auto simp: match_tail_def Let_def split: if_splits)
    have "?r = []"
    proof (rule ccontr)
      assume "?r \<noteq> []"
      with e have e10: "?r = [10]" unfolding at_end_def by blast
      have "s = ?g2 @ [10]" using s e10 by metis
      then have "last s = 10" and "s \<noteq> []"
        by (metis last_snoc, metis snoc_eq_iff_butlast)
      with nl show False by simp
    qed
    then have "s = ?g2" by (metis s append_Nil2)
    then have "s = ?g2 @ (case None :: (nat \<times> ustr) option of None \<Rightarrow> [] | Some (sep, f) \<Rightarrow> sep # f)"
      by simp
    with res g2ok d2 show ?thesis
      by (intro conjI exI[of _ None]) simp_all
  qed
qed


lemma match_lap_sound:
  assumes m: "match_lap U t = Some (g1, g2, g3)" and nl: "t = [] \<or> last t \<noteq> 10"
  shows "\<exists>fr. lap_fields U g1 g2 fr \<and> t = lap_text g1 g2 fr \<and> g3 = map_option snd fr"
proof -
  let ?ms = "takeWhile (is_decimal U) t" and ?r = "dropWhile (is_decimal U) t"
  let ?first = "if ?ms \<noteq> [] \<and> ?r \<noteq> [] \<and> hd ?r = 58 then match_tail U (Some ?ms) (tl ?r) else None"
  have t: "t = ?ms @ ?r" by simp
  show ?thesis
  proof (cases ?first)
    case None
    with m have mt: "match_tail U None t = Some (g1, g2, g3)"
      by (simp add: match_lap_def Let_def)
    from match_tail_sound[OF mt nl] obtain fr where
      "g1 = None" "g2 \<noteq> []" "length g2 \<le> 2" "list_all (is_decimal U) g2"
      "case fr of None \<Rightarrow> True
       | Some (sep, f) \<Rightarrow> (sep = 46 \<or> sep = 44) \<and> f \<noteq> [] \<and> length f \<le> 3 \<and> list_all (is_decimal U) f"
      "t = g2 @ (case fr of None \<Rightarrow> [] | Some (sep, f) \<Rightarrow> sep # f)" "g3 = map_option snd fr"
      by blast
    then show ?thesis
      by (intro exI[of _ fr]) (simp add: lap_fields_def lap_text_def)
  next
    case (Some res)
    then have c: "?ms \<noteq> []" "?r \<noteq> []" "hd ?r = 58"
      and mt': "match_tail U (Some ?ms) (tl ?r) = Some res"
      by (simp_all split: if_splits)
    from Some m have "res = (g1, g2, g3)" by (simp add: match_lap_def Let_def)
    with mt' have mt: "match_tail U (Some ?ms) (tl ?r) = Some (g1, g2, g3)" by simp
    have r: "?r = 58 # tl ?r" using c(2,3) by (cases ?r) simp_all
    have t': "t = ?ms @ 58 # tl ?r" using t r by metis
    have tne: "t \<noteq> []" using c(1) by auto
    have nl': "tl ?r = [] \<or> last (tl ?r) \<noteq> 10"
    proof (cases "tl ?r = []")
      case False
      have "last t = last (tl ?r)"
        using False by (subst t') simp
      with nl tne show ?thesis by simp
    qed simp
    have dms: "list_all (is_decimal U) ?ms"
      by (auto simp: list_all_iff dest: set_takeWhileD)
    from match_tail_sound[OF mt nl'] obtain fr where
      "g1 = Some ?ms" "g2 \<noteq> []" "length g2 \<le> 2" "list_all (is_decimal U) g2"
      "case fr of None \<Rightarrow> True
       | Some (sep, f) \<Rightarrow> (sep = 46 \<or> sep = 44) \<and> f \<noteq> [] \<and> length f \<le> 3 \<and> list_all (is_decimal U) f"
      "tl ?r = g2 @ (case fr of None \<Rightarrow> [] | Some (sep, f) \<Rightarrow> sep # f)" "g3 = map_option snd fr"
      by blast
    with c(1) dms t' show ?thesis
      by (intro exI[of _ fr]) (simp add: lap_fields_def lap_text_def)
  qed
qed

lemma ljust_frac_decimal:
  assumes "case g3 of None \<Rightarrow> True | Some f \<Rightarrow> f \<noteq> [] \<and> length f \<le> 3 \<and> list_all (is_decimal U) f"
  shows "ljust 3 48 (case g3 of None \<Rightarrow> str ''0'' | Some f \<Rightarrow> f) \<noteq> []"
    and "list_all (is_decimal U) (ljust 3 48 (case g3 of None \<Rightarrow> str ''0'' | Some f \<Rightarrow> f))"
    and "length (ljust 3 48 (case g3 of None \<Rightarrow> str ''0'' | Some f \<Rightarrow> f)) = 3"
  using assms
  by (auto simp: ljust_def str_def is_decimal_zero list_all_iff split: option.splits)

lemma not_over_limit_short: "n \<le> 640 \<Longrightarrow> \<not> over_digit_limit U n"
  by (simp add: over_digit_limit_def)

lemma lap_whole_nonneg: "0 \<le> lap_whole U mi se"
  by (auto simp: lap_whole_def decimal_value_nonneg split: option.splits)

lemma lap_seconds_fields:
  assumes f: "lap_fields U mi se fr"
  shows "lap_seconds U mi se (map_option snd fr) =
         (if over_digit_limit U (length (case mi of None \<Rightarrow> [] | Some ms \<Rightarrow> ms)) then Inl ValueError
          else if float_overflow \<le> lap_whole U mi se then Inl OverflowError
          else Inr (Some (Lap (lap_whole U mi se) (lap_millis U fr))))"
proof -
  define p where "p = (case map_option snd fr of None \<Rightarrow> str ''0'' | Some f \<Rightarrow> f)"
  from f have se: "se \<noteq> []" "length se \<le> 2" "list_all (is_decimal U) se"
    by (simp_all add: lap_fields_def)
  have sec: "py_int U se = Inr (decimal_value U se)"
    using se by (simp add: py_int_digits not_over_limit_short)
  have g3: "case map_option snd fr of None \<Rightarrow> True
            | Some f \<Rightarrow> f \<noteq> [] \<and> length f \<le> 3 \<and> list_all (is_decimal U) f"
    using f by (auto simp: lap_fields_def split: option.splits)
  have pad: "p = (case fr of None \<Rightarrow> str ''0'' | Some (sep, f) \<Rightarrow> f)"
    unfolding p_def by (auto split: option.splits)
  have pd: "ljust 3 48 p \<noteq> []" "list_all (is_decimal U) (ljust 3 48 p)" "length (ljust 3 48 p) = 3"
    using ljust_frac_decimal[OF g3] unfolding p_def by blast+
  have mil: "py_int U (ljust 3 48 p) = Inr (lap_millis U fr)"
    using pd by (simp add: py_int_digits not_over_limit_short lap_millis_def pad)
  have abs: "\<bar>lap_whole U mi se\<bar> = lap_whole U mi se"
    using lap_whole_nonneg[of U mi se] by simp
  show ?thesis
  proof (cases mi)
    case None
    then show ?thesis
      unfolding lap_seconds_def p_def[symmetric]
      using abs by (simp add: sec mil int_plus_float_def lap_whole_def over_digit_limit_def)
  next
    case (Some ms)
    with f have ms: "ms \<noteq> []" "list_all (is_decimal U) ms"
      by (simp_all add: lap_fields_def)
    show ?thesis
      unfolding lap_seconds_def p_def[symmetric]
      using abs by (simp add: Some py_int_digits[OF ms] sec mil int_plus_float_def lap_whole_def)
  qed
qed

lemma lap_text_nonempty: "lap_fields U mi se fr \<Longrightarrow> lap_text mi se fr \<noteq> []"
  by (simp add: lap_fields_def lap_text_def)

lemma parse_lap_time_match:
  assumes f: "lap_fields U mi se fr" and t: "strip U txt = lap_text mi se fr"
    and ns: "strip U txt \<notin> set sentinels"
  shows "parse_lap_time U txt =
         (if over_digit_limit U (length (case mi of None \<Rightarrow> [] | Some ms \<Rightarrow> ms)) then Inl ValueError
          else if float_overflow \<le> lap_whole U mi se then Inl OverflowError
          else Inr (Some (Lap (lap_whole U mi se) (lap_millis U fr))))"
proof -
  have ne: "lap_text mi se fr \<noteq> []" using f by (rule lap_text_nonempty)
  with t have "txt \<noteq> []" by (auto simp: strip_def)
  moreover have "match_lap U (lap_text mi se fr) = Some (mi, se, map_option snd fr)"
    using f by (rule match_lap_complete)
  ultimately show ?thesis
    using ne ns by (simp add: parse_lap_time_def t lap_seconds_fields[OF f])
qed

lemma parse_lap_time_nomatch:
  assumes "\<forall>mi se fr. lap_fields U mi se fr \<longrightarrow> strip U txt \<noteq> lap_text mi se fr"
  shows "parse_lap_time U txt = Inr None"
proof (cases "match_lap U (strip U txt)")
  case None
  then show ?thesis by (simp add: parse_lap_time_def Let_def)
next
  case (Some g)
  obtain g1 g2 g3 where g: "g = (g1, g2, g3)" by (cases g)
  have nl: "strip U txt = [] \<or> last (strip U txt) \<noteq> 10"
    using strip_last[of U "txt"] isspace_newline[of U] by metis
  from Some g have m: "match_lap U (strip U txt) = Some (g1, g2, g3)" by simp
  from match_lap_sound[OF m nl] assms have False by blast
  then show ?thesis ..
qed

lemma parse_lap_time_blank: "strip U txt = [] \<Longrightarrow> parse_lap_time U txt = Inr None"
  by (simp add: parse_lap_time_def)

lemma parse_lap_time_sentinel: "strip U txt \<in> set sentinels \<Longrightarrow> parse_lap_time U txt = Inr None"
  by (simp add: parse_lap_time_def)

lemma parse_lap_time_total:
  "parse_lap_time U txt = Inr None \<or>
   (\<exists>mi se fr. lap_fields U mi se fr \<and> strip U txt = lap_text mi se fr \<and>
      parse_lap_time U txt =
         (if over_digit_limit U (length (case mi of None \<Rightarrow> [] | Some ms \<Rightarrow> ms)) then Inl ValueError
          else if float_overflow \<le> lap_whole U mi se then Inl OverflowError
          else Inr (Some (Lap (lap_whole U mi se) (lap_millis U fr)))))"
proof (cases "strip U txt \<in> set sentinels")
  case True
  then show ?thesis by (simp add: parse_lap_time_sentinel)
next
  case False
  show ?thesis
  proof (cases "\<forall>mi se fr. lap_fields U mi se fr \<longrightarrow> strip U txt \<noteq> lap_text mi se fr")
    case True
    then show ?thesis by (simp add: parse_lap_time_nomatch)
  next
    case False
    then obtain mi se fr where "lap_fields U mi se fr" "strip U txt = lap_text mi se fr" by blast
    with \<open>strip U txt \<notin> set sentinels\<close> show ?thesis
      using parse_lap_time_match by blast
  qed
qed

lemma xml_candidates_eval:
  "xml_candidates DATA_SOURCE_URL =
     [str ''https://results.ris-timing.be/2cvrt/live/live2025.xml'',
      str ''https://results.ris-timing.be/2cvrt/live/live2025.xml'']"
  by (simp add: xml_candidates_def DATA_SOURCE_URL_def str_def before_last_def after_last_def
        replace_def startswith_def)

lemma ljust_3:
  "ljust 3 48 [a] = [a, 48, 48]" "ljust 3 48 [a, b] = [a, b, 48]" "ljust 3 48 [a, b, c] = [a, b, c]"
  by (simp_all add: ljust_def numeral_2_eq_2)

lemmas lap_eval =
  parse_lap_time_def str_def strip_def isspace_def sentinels_def match_lap_def
  match_tail_def is_decimal_def decimal_def at_end_def lap_seconds_def py_int_def ljust_3
  to_ascii_def ascii_blank_def ascii_digit_def digits_value_def int_plus_float_def
  over_digit_limit_def float_overflow_def

lemma lap_examples:
  "parse_lap_time U (str ''1:23.456'') = Inr (Some (Lap 83 456))"
  "parse_lap_time U (str ''23.4'') = Inr (Some (Lap 23 400))"
  "parse_lap_time U (str ''23,456'') = Inr (Some (Lap 23 456))"
  "parse_lap_time U (str ''DNF'') = Inr None"
  "parse_lap_time U (str ''N/A'') = Inr None"
  "parse_lap_time U (str ''-'') = Inr None"
  "parse_lap_time U [] = Inr None"
  by (simp_all add: lap_eval)

lemma decimal_value_zeros_aux:
  "foldl (\<lambda>a c. 10 * a + int (case decimal U c of None \<Rightarrow> 0 | Some d \<Rightarrow> d)) acc (replicate n 48) =
   acc * 10 ^ n"
  by (induction n arbitrary: acc) (simp_all add: decimal_def)

lemma decimal_value_ascii_aux:
  "list_all ascii_digit ds \<Longrightarrow>
   foldl (\<lambda>a c. 10 * a + int (case decimal U c of None \<Rightarrow> 0 | Some d \<Rightarrow> d)) acc ds =
   foldl (\<lambda>a c. 10 * a + (int c - 48)) acc ds"
  by (induction ds arbitrary: acc) (auto simp: ascii_digit_def decimal_def)

lemma decimal_value_ascii: "list_all ascii_digit ds \<Longrightarrow> decimal_value U ds = digits_value ds"
  by (simp add: decimal_value_def digits_value_def decimal_value_ascii_aux)

lemma decimal_one: "decimal U 49 = Some 1"
  by (simp add: decimal_def)

lemma decimal_value_one_zeros: "decimal_value U (49 # replicate n 48) = 10 ^ n"
  by (simp add: decimal_value_def decimal_one decimal_value_zeros_aux)

lemma huge_minutes_overflow:
  "parse_lap_time U (49 # replicate 400 48 @ str '':00'') = Inl OverflowError"
proof -
  let ?mi = "Some (49 # replicate 400 48)" and ?se = "str ''00''"
  let ?fr = "None :: (nat \<times> ustr) option"
  let ?t = "49 # replicate 400 48 @ str '':00''"
  have f: "lap_fields U ?mi ?se ?fr"
    by (simp add: lap_fields_def str_def is_decimal_def decimal_def list_all_iff)
  have st: "strip U ?t = ?t"
    by (simp add: strip_def str_def isspace_def)
  have t: "strip U ?t = lap_text ?mi ?se ?fr"
    unfolding st by (simp add: lap_text_def str_def)
  have ns: "strip U ?t \<notin> set sentinels"
    unfolding st by (simp add: sentinels_def str_def)
  have z: "decimal_value U (str ''00'') = 0"
    by (simp add: decimal_value_ascii digits_value_def str_def ascii_digit_def)
  have big: "float_overflow \<le> lap_whole U ?mi ?se"
    by (simp add: lap_whole_def decimal_value_one_zeros z float_overflow_def)
  show ?thesis
    using parse_lap_time_match[OF f t ns] big
    by (simp add: over_digit_limit_def)
qed

text \<open>
  Claim C10. For the configured \<open>DATA_SOURCE_URL\<close> the two XML candidates (the extension
  replaced on the whole URL, and the extension replaced inside the file name) are the same
  text, \<^verbatim>\<open>https://results.ris-timing.be/2cvrt/live/live2025.xml\<close>: the list of
  candidates holds it twice, so the second probe asks for the URL of the first again.
\<close>

theorem xml_candidates_coincide:
  "xml_candidates DATA_SOURCE_URL =
     [str ''https://results.ris-timing.be/2cvrt/live/live2025.xml'',
      str ''https://results.ris-timing.be/2cvrt/live/live2025.xml''] \<and>
   remdups (xml_candidates DATA_SOURCE_URL) =
     [str ''https://results.ris-timing.be/2cvrt/live/live2025.xml'']"
proof -
  have c: "xml_candidates DATA_SOURCE_URL =
     [str ''https://results.ris-timing.be/2cvrt/live/live2025.xml'',
      str ''https://results.ris-timing.be/2cvrt/live/live2025.xml'']"
    by (rule xml_candidates_eval)
  then show ?thesis by simp
qed

text \<open>
  What \<^verbatim>\<open>_parse_lap_time\<close> returns: \<^verbatim>\<open>None\<close> on an empty or blank text, on the
  sentinels and on every text that, stripped, is no reading of the grammar; on a reading
  whose minutes stay within the digit limit of \<^verbatim>\<open>int()\<close> and whose
  \<open>minutes * 60 + seconds\<close> is below the overflow bound of a float, the float of
  \<open>minutes * 60 + seconds\<close> plus the fraction padded to three digits over a thousand. An
  exception comes from a reading beyond one of these two bounds only. The four examples of
  the specification hold.
\<close>

lemma parse_lap_time_grammar:
  "(strip U txt = [] \<longrightarrow> parse_lap_time U txt = Inr None) \<and>
   (strip U txt \<in> set sentinels \<longrightarrow> parse_lap_time U txt = Inr None) \<and>
   ((\<forall>mi se fr. lap_fields U mi se fr \<longrightarrow> strip U txt \<noteq> lap_text mi se fr) \<longrightarrow>
      parse_lap_time U txt = Inr None) \<and>
   (lap_fields U mi se fr \<and> strip U txt = lap_text mi se fr \<and> strip U txt \<notin> set sentinels \<and>
    \<not> over_digit_limit U (length (case mi of None \<Rightarrow> [] | Some ms \<Rightarrow> ms)) \<and>
    lap_whole U mi se < float_overflow \<longrightarrow>
      parse_lap_time U txt = Inr (Some (Lap (lap_whole U mi se) (lap_millis U fr)))) \<and>
   (parse_lap_time U txt = Inl e \<longrightarrow>
      (\<exists>mi se fr. lap_fields U mi se fr \<and> strip U txt = lap_text mi se fr \<and>
         (over_digit_limit U (length (case mi of None \<Rightarrow> [] | Some ms \<Rightarrow> ms)) \<or>
          float_overflow \<le> lap_whole U mi se))) \<and>
   parse_lap_time U (str ''1:23.456'') = Inr (Some (Lap 83 456)) \<and>
   parse_lap_time U (str ''23.4'') = Inr (Some (Lap 23 400)) \<and>
   parse_lap_time U (str ''23,456'') = Inr (Some (Lap 23 456)) \<and>
   parse_lap_time U (str ''DNF'') = Inr None"
proof (intro conjI impI)
  assume "strip U txt = []"
  then show "parse_lap_time U txt = Inr None" by (rule parse_lap_time_blank)
next
  assume "strip U txt \<in> set sentinels"
  then show "parse_lap_time U txt = Inr None" by (rule parse_lap_time_sentinel)
next
  assume "\<forall>mi se fr. lap_fields U mi se fr \<longrightarrow> strip U txt \<noteq> lap_text mi se fr"
  then show "parse_lap_time U txt = Inr None" by (rule parse_lap_time_nomatch)
next
  assume a: "lap_fields U mi se fr \<and> strip U txt = lap_text mi se fr \<and>
    strip U txt \<notin> set sentinels \<and>
    \<not> over_digit_limit U (length (case mi of None \<Rightarrow> [] | Some ms \<Rightarrow> ms)) \<and>
    lap_whole U mi se < float_overflow"
  then have f: "lap_fields U mi se fr" and t: "strip U txt = lap_text mi se fr"
    and ns: "strip U txt \<notin> set sentinels"
    by blast+
  note parse_lap_time_match[OF f t ns]
  with a show "parse_lap_time U txt = Inr (Some (Lap (lap_whole U mi se) (lap_millis U fr)))"
    by simp
next
  assume e: "parse_lap_time U txt = Inl e"
  from parse_lap_time_total[of U "txt"] e
  obtain mi se fr where m: "lap_fields U mi se fr" "strip U txt = lap_text mi se fr"
    and r: "parse_lap_time U txt =
         (if over_digit_limit U (length (case mi of None \<Rightarrow> [] | Some ms \<Rightarrow> ms)) then Inl ValueError
          else if float_overflow \<le> lap_whole U mi se then Inl OverflowError
          else Inr (Some (Lap (lap_whole U mi se) (lap_millis U fr))))"
    by auto
  from r e have "over_digit_limit U (length (case mi of None \<Rightarrow> [] | Some ms \<Rightarrow> ms)) \<or>
          float_overflow \<le> lap_whole U mi se"
    by (auto split: if_splits)
  with m show "\<exists>mi se fr. lap_fields U mi se fr \<and> strip U txt = lap_text mi se fr \<and>
         (over_digit_limit U (length (case mi of None \<Rightarrow> [] | Some ms \<Rightarrow> ms)) \<or>
          float_overflow \<le> lap_whole U mi se)"
    by blast
qed (rule lap_examples)+

text \<open>
  Claim C2 says that \<^verbatim>\<open>_parse_lap_time\<close> returns \<^verbatim>\<open>None\<close> on every text outside
  the grammar, the value on a match, and never raises. On a text of the grammar with a
  minutes field of one followed by four hundred zeros it raises OverflowError, for every
  interpreter: \<^verbatim>\<open>minutes * 60 + seconds\<close> is an \<^verbatim>\<open>int\<close> too large to convert to the
  \<^verbatim>\<open>float\<close> it is added to. The docstring promises \<^verbatim>\<open>None\<close> when parsing fails.
\<close>

theorem parse_lap_time_can_raise:
  "\<forall>U. parse_lap_time U (49 # replicate 400 48 @ str '':00'') = Inl OverflowError"
  by (simp add: huge_minutes_overflow)

section \<open>Properties of the poll cycle\<close>

lemma update_cache_nothing: "update_cache None None None self = self"
  by (simp add: update_cache_def)

lemma scrape_xml: "scrape U w (Some r) None self = (Inl AttributeError, self)"
  by (simp add: scrape_def soup_find_all_def split: prod.splits)

lemma scrape_html:
  "scrape U w None (Some soup) self =
     (case page_cars U soup of
        Inl e \<Rightarrow> (Inl e, self)
      | Inr cs \<Rightarrow> (Inr \<lparr>cars = cs, session = session_of self (now w) True\<rparr>, self))"
  by (simp add: scrape_def soup_find_all_def page_cars_def update_cache_nothing
        split: option.splits sum.splits)

lemma getRaceState_paths:
  "getRaceState U w self =
     (case select_xml U w of
        (Some r, k) \<Rightarrow> (Inl AttributeError, self)
      | (None, k) \<Rightarrow>
          (case fetch_html w k DATA_SOURCE_URL of
             None \<Rightarrow> fetch_failed w self
           | Some page \<Rightarrow>
               (case html_parser U page of
                  None \<Rightarrow> (Inl ParserRejectedMarkup, self\<lparr>last_fetch_ok := True\<rparr>)
                | Some soup \<Rightarrow>
                    (case page_cars U soup of
                       Inl e \<Rightarrow> (Inl e, self\<lparr>last_fetch_ok := True\<rparr>)
                     | Inr cs \<Rightarrow>
                         (Inr \<lparr>cars = cs,
                               session = session_of (self\<lparr>last_fetch_ok := True\<rparr>) (now w) True\<rparr>,
                          self\<lparr>last_fetch_ok := True\<rparr>)))))"
  by (simp add: getRaceState_def scrape_xml scrape_html split: prod.splits option.splits)

lemma plugin_getRaceState_paths:
  "plugin_getRaceState U w self =
     (case fetch_html w 0 DATA_SOURCE_URL of
        None \<Rightarrow> fetch_failed w self
      | Some page \<Rightarrow>
          (case html_parser U page of
             None \<Rightarrow> (Inl ParserRejectedMarkup, self\<lparr>last_fetch_ok := True\<rparr>)
           | Some soup \<Rightarrow>
               (case page_cars U soup of
                  Inl e \<Rightarrow> (Inl e, self\<lparr>last_fetch_ok := True\<rparr>)
                | Inr cs \<Rightarrow>
                    (Inr \<lparr>cars = cs,
                          session = session_of (self\<lparr>last_fetch_ok := True\<rparr>) (now w) True\<rparr>,
                     self\<lparr>last_fetch_ok := True\<rparr>))))"
  by (simp add: plugin_getRaceState_def page_cars_def update_cache_nothing Let_def
        split: option.splits sum.splits)

lemma fetch_failed_eq:
  "fetch_failed w self =
     (Inr \<lparr>cars = [], session = session_of (self\<lparr>last_fetch_ok := False\<rparr>) (now w) False\<rparr>,
      self\<lparr>last_fetch_ok := False\<rparr>)"
  by (simp add: fetch_failed_def Let_def)

lemma cache_fetch_ok: "cache (self\<lparr>last_fetch_ok := b\<rparr>) = cache self"
  by (simp add: cache_def)

lemma cache_html_result:
  "cache (snd (case fetch_html w k url of
                 None \<Rightarrow> fetch_failed w self
               | Some page \<Rightarrow>
                   (case html_parser U page of
                      None \<Rightarrow> (Inl ParserRejectedMarkup, self\<lparr>last_fetch_ok := True\<rparr>)
                    | Some soup \<Rightarrow>
                        (case page_cars U soup of
                           Inl e \<Rightarrow> (Inl e, self\<lparr>last_fetch_ok := True\<rparr>)
                         | Inr cs \<Rightarrow>
                             (Inr \<lparr>cars = cs,
                                   session =
                                     session_of (self\<lparr>last_fetch_ok := True\<rparr>) (now w) True\<rparr>,
                              self\<lparr>last_fetch_ok := True\<rparr>))))) = cache self"
  by (simp add: fetch_failed_eq cache_fetch_ok split: option.splits sum.splits)

lemma cache_getRaceState: "cache (snd (getRaceState U w self)) = cache self"
proof (cases "select_xml U w")
  case (Pair root k)
  then show ?thesis
    by (cases root) (simp_all add: getRaceState_paths cache_html_result)
qed

lemma cache_plugin_getRaceState: "cache (snd (plugin_getRaceState U w self)) = cache self"
  by (simp add: plugin_getRaceState_paths cache_html_result)

lemma probe_two_failures:
  assumes "xml_accepted U (http_get w 0 xml_url) = None"
    and "xml_accepted U (http_get w 1 xml_url) = None"
  shows "select_xml U w = (None, 2)"
  using assms
  by (simp add: select_xml_def xml_candidates_eval xml_url_def)

lemma select_xml_first:
  assumes "xml_accepted U (http_get w 0 xml_url) = Some x"
  shows "select_xml U w = (fromstring U x, 1)"
  using assms
  by (simp add: select_xml_def xml_candidates_eval xml_url_def)

lemma xml_selected_raises:
  assumes "xml_accepted U (http_get w 0 xml_url) = Some x" and "fromstring U x = Some r"
  shows "getRaceState U w self = (Inl AttributeError, self)"
  using assms by (simp add: getRaceState_paths select_xml_first)

lemma fetch_html_fails:
  assumes "http_get w k url = RequestException \<or>
           (\<exists>st body. http_get w k url = Response st body \<and> 400 \<le> st \<and> st < 600)"
  shows "fetch_html w k url = None"
  using assms by (auto simp: fetch_html_def raises_for_status_def)

lemma xml_url_not_page: "xml_url \<noteq> DATA_SOURCE_URL"
  by (simp add: xml_url_def DATA_SOURCE_URL_def str_def)

lemma xml_doc_accepted: "xml_accepted U (Response 200 xml_doc_text) = Some xml_doc_text"
  by (simp add: xml_accepted_def xml_doc_text_def startswith_def lstrip_def isspace_def str_def)

lemma bare_xml_accepted: "xml_accepted U (Response 200 bare_xml_text) = Some bare_xml_text"
  by (simp add: xml_accepted_def bare_xml_text_def startswith_def lstrip_def isspace_def str_def)

lemma refused_not_accepted:
  "xml_accepted U RequestException = None" "xml_accepted U (Response 404 body) = None"
  by (simp_all add: xml_accepted_def)

lemma offline_poll:
  "getRaceState U offline_world self =
     (Inr \<lparr>cars = [], session = session_of (self\<lparr>last_fetch_ok := False\<rparr>) 1700000000 False\<rparr>,
      self\<lparr>last_fetch_ok := False\<rparr>)"
  "plugin_getRaceState U offline_world self =
     (Inr \<lparr>cars = [], session = session_of (self\<lparr>last_fetch_ok := False\<rparr>) 1700000000 False\<rparr>,
      self\<lparr>last_fetch_ok := False\<rparr>)"
proof -
  have a: "xml_accepted U (http_get offline_world k xml_url) = None" for k
    by (simp add: offline_world_def refused_not_accepted)
  have f: "fetch_html offline_world k DATA_SOURCE_URL = None" for k
    by (simp add: offline_world_def fetch_html_def)
  have n: "now offline_world = 1700000000"
    by (simp add: offline_world_def)
  show "getRaceState U offline_world self =
     (Inr \<lparr>cars = [], session = session_of (self\<lparr>last_fetch_ok := False\<rparr>) 1700000000 False\<rparr>,
      self\<lparr>last_fetch_ok := False\<rparr>)"
    by (simp add: getRaceState_paths probe_two_failures[OF a a] f fetch_failed_eq n)
  show "plugin_getRaceState U offline_world self =
     (Inr \<lparr>cars = [], session = session_of (self\<lparr>last_fetch_ok := False\<rparr>) 1700000000 False\<rparr>,
      self\<lparr>last_fetch_ok := False\<rparr>)"
    by (simp add: plugin_getRaceState_paths f fetch_failed_eq n)
qed

lemma cached_session:
  "session_of (cached_service\<lparr>last_fetch_ok := b\<rparr>) t ok =
     \<lparr>name = str ''Race 1'', flag = str ''GREEN FLAG'', remaining = Some 120,
      clock = t, source_ok = ok\<rparr>"
  by (simp add: session_of_def cached_service_def or_default_def str_def)

lemma init_session:
  "session_of (init_service\<lparr>last_fetch_ok := b\<rparr>) t ok =
     \<lparr>name = str ''2CVRT'', flag = [], remaining = None, clock = t, source_ok = ok\<rparr>"
  by (simp add: session_of_def init_service_def or_default_def)

lemma empty_page_cars: "page_cars U (Tag n []) = Inr []"
  by (simp add: page_cars_def find_all_def locate_table_def)



lemma car_nodes_examples:
  "car_nodes good_doc = [good_node]"
  "car_nodes overflow_doc = [good_node, overflow_node]"
  "car_nodes bare_xml_root =
     [Element (str ''row'') None [Element (str ''team'') (Some (str ''Les Tortues'')) []]]"
  by (simp_all add: car_nodes_def findall_below_def good_doc_def overflow_doc_def
        good_node_def overflow_node_def bare_xml_root_def str_def)

lemma xml_row_bare:
  "xml_row U (Element (str ''row'') None [Element (str ''team'') (Some (str ''Les Tortues'')) []]) =
     Inr []"
proof -
  let ?n = "Element (str ''row'') None [Element (str ''team'') (Some (str ''Les Tortues'')) []]"
  have d: "children_dict U ?n = [str ''team'' \<mapsto> str ''Les Tortues'']"
    by (simp add: children_dict_def lower_def strip_def isspace_def str_def)
  have f: "node_field U ?n num_tags = []"
    "node_field U ?n last_tags = []"
    "node_field U ?n best_tags = []"
    unfolding node_field_def d
    by (simp_all add: num_tags_def last_tags_def best_tags_def str_def)
  show ?thesis
    unfolding xml_row_def Let_def f
    by (simp add: parse_lap_time_def)
qed

text \<open>
  Claim C1 says that \<^verbatim>\<open>getRaceState\<close> never raises, whichever source was selected.
  In the module with the XML path it raises on every poll that selects XML: \<^verbatim>\<open>soup\<close>
  is \<^verbatim>\<open>None\<close> there and \<^verbatim>\<open>soup.find_all('table')\<close> is an AttributeError, outside
  every \<^verbatim>\<open>try\<close>. The poll below is served a well-formed XML document with one car.
\<close>

theorem xml_poll_raises:
  "getRaceState xml_runtime xml_world init_service = (Inl AttributeError, init_service)"
proof -
  have "xml_accepted xml_runtime (http_get xml_world 0 xml_url) = Some xml_doc_text"
    by (simp add: xml_world_def xml_doc_accepted)
  moreover have "fromstring xml_runtime xml_doc_text = Some xml_doc_root"
    by (simp add: xml_runtime_def)
  ultimately show ?thesis
    by (rule xml_selected_raises)
qed

text \<open>
  Claim C3 says that a poll on the XML path that extracts no car row returns an empty car
  list with \<^verbatim>\<open>source_ok\<close> true. The XML document below has one row without a car
  number, so the extraction yields no car; the poll returns nothing and raises the
  AttributeError of \<^verbatim>\<open>soup.find_all\<close>.
\<close>

theorem xml_without_rows_raises:
  "xml_cars bare_xml_runtime bare_xml_root = [] \<and>
   getRaceState bare_xml_runtime bare_xml_world init_service = (Inl AttributeError, init_service)"
proof -
  have "xml_accepted bare_xml_runtime (http_get bare_xml_world 0 xml_url) = Some bare_xml_text"
    by (simp add: bare_xml_world_def bare_xml_accepted)
  moreover have "fromstring bare_xml_runtime bare_xml_text = Some bare_xml_root"
    by (simp add: bare_xml_runtime_def)
  ultimately have "getRaceState bare_xml_runtime bare_xml_world init_service =
             (Inl AttributeError, init_service)"
    by (rule xml_selected_raises)
  moreover have "xml_cars bare_xml_runtime bare_xml_root = []"
    by (simp add: xml_cars_def car_nodes_examples xml_row_bare)
  ultimately show ?thesis by simp
qed

text \<open>
  Claim C4, as amended. When both XML probes are refused and the HTML request raises or
  answers with a status from 400 to 599 (the statuses \<^verbatim>\<open>raise_for_status\<close> raises
  on), the poll returns no cars, \<^verbatim>\<open>source_ok\<close> false, the current time as clock, and
  name, flag and remaining time from the cache (\<^verbatim>\<open>2CVRT\<close> and the empty text when the
  cache has none); the same holds for the HTML-only module and its single request.
\<close>

theorem fetch_failure_result:
  "(xml_accepted U (http_get w 0 xml_url) = None \<and>
    xml_accepted U (http_get w 1 xml_url) = None \<and>
    (http_get w 2 DATA_SOURCE_URL = RequestException \<or>
     (\<exists>st body. http_get w 2 DATA_SOURCE_URL = Response st body \<and> 400 \<le> st \<and> st < 600)) \<longrightarrow>
    getRaceState U w self =
      (Inr \<lparr>cars = [],
            session = \<lparr>name = or_default (last_session_name self) (str ''2CVRT''),
                       flag = or_default (last_flag self) [],
                       remaining = last_remaining self,
                       clock = now w,
                       source_ok = False\<rparr>\<rparr>,
       self\<lparr>last_fetch_ok := False\<rparr>)) \<and>
   ((http_get w 0 DATA_SOURCE_URL = RequestException \<or>
     (\<exists>st body. http_get w 0 DATA_SOURCE_URL = Response st body \<and> 400 \<le> st \<and> st < 600)) \<longrightarrow>
    plugin_getRaceState U w self =
      (Inr \<lparr>cars = [],
            session = \<lparr>name = or_default (last_session_name self) (str ''2CVRT''),
                       flag = or_default (last_flag self) [],
                       remaining = last_remaining self,
                       clock = now w,
                       source_ok = False\<rparr>\<rparr>,
       self\<lparr>last_fetch_ok := False\<rparr>))"
proof (intro conjI impI)
  assume a: "xml_accepted U (http_get w 0 xml_url) = None \<and>
    xml_accepted U (http_get w 1 xml_url) = None \<and>
    (http_get w 2 DATA_SOURCE_URL = RequestException \<or>
     (\<exists>st body. http_get w 2 DATA_SOURCE_URL = Response st body \<and> 400 \<le> st \<and> st < 600))"
  then have sel: "select_xml U w = (None, 2)"
    by (intro probe_two_failures) simp_all
  from a have "fetch_html w 2 DATA_SOURCE_URL = None"
    by (intro fetch_html_fails) simp
  with sel show "getRaceState U w self =
      (Inr \<lparr>cars = [],
            session = \<lparr>name = or_default (last_session_name self) (str ''2CVRT''),
                       flag = or_default (last_flag self) [],
                       remaining = last_remaining self,
                       clock = now w,
                       source_ok = False\<rparr>\<rparr>,
       self\<lparr>last_fetch_ok := False\<rparr>)"
    by (simp add: getRaceState_paths fetch_failed_eq session_of_def)
next
  assume "http_get w 0 DATA_SOURCE_URL = RequestException \<or>
     (\<exists>st body. http_get w 0 DATA_SOURCE_URL = Response st body \<and> 400 \<le> st \<and> st < 600)"
  then have "fetch_html w 0 DATA_SOURCE_URL = None"
    by (rule fetch_html_fails)
  then show "plugin_getRaceState U w self =
      (Inr \<lparr>cars = [],
            session = \<lparr>name = or_default (last_session_name self) (str ''2CVRT''),
                       flag = or_default (last_flag self) [],
                       remaining = last_remaining self,
                       clock = now w,
                       source_ok = False\<rparr>\<rparr>,
       self\<lparr>last_fetch_ok := False\<rparr>)"
    by (simp add: plugin_getRaceState_paths fetch_failed_eq session_of_def)
qed

text \<open>
  The hypotheses are met by a network that answers 403 for the page and 404 for the XML
  URL, and for the HTML-only module by a network that is offline.
\<close>

theorem fetch_failure_result_witness:
  "xml_accepted ascii_runtime (http_get forbidden_world 0 xml_url) = None \<and>
   xml_accepted ascii_runtime (http_get forbidden_world 1 xml_url) = None \<and>
   http_get forbidden_world 2 DATA_SOURCE_URL = Response 403 (str ''Forbidden'') \<and>
   getRaceState ascii_runtime forbidden_world cached_service =
     (Inr \<lparr>cars = [],
           session = \<lparr>name = str ''Race 1'', flag = str ''GREEN FLAG'', remaining = Some 120,
                      clock = 1700000000, source_ok = False\<rparr>\<rparr>,
      cached_service\<lparr>last_fetch_ok := False\<rparr>) \<and>
   http_get offline_world 0 DATA_SOURCE_URL = RequestException \<and>
   plugin_getRaceState ascii_runtime offline_world init_service =
     (Inr \<lparr>cars = [],
           session = \<lparr>name = str ''2CVRT'', flag = [], remaining = None,
                      clock = 1700000000, source_ok = False\<rparr>\<rparr>,
      init_service\<lparr>last_fetch_ok := False\<rparr>)"
proof -
  note main = fetch_failure_result[of ascii_runtime forbidden_world cached_service, THEN conjunct1]
  note plug = fetch_failure_result[of ascii_runtime offline_world init_service, THEN conjunct2]
  have h0: "xml_accepted ascii_runtime (http_get forbidden_world 0 xml_url) = None"
    by (simp add: forbidden_world_def xml_accepted_def xml_url_def DATA_SOURCE_URL_def str_def)
  have h1: "xml_accepted ascii_runtime (http_get forbidden_world 1 xml_url) = None"
    by (simp add: forbidden_world_def xml_accepted_def xml_url_def DATA_SOURCE_URL_def str_def)
  have h2: "http_get forbidden_world 2 DATA_SOURCE_URL = Response 403 (str ''Forbidden'')"
    by (simp add: forbidden_world_def)
  have p0: "http_get offline_world 0 DATA_SOURCE_URL = RequestException"
    by (simp add: offline_world_def)
  have r1: "getRaceState ascii_runtime forbidden_world cached_service =
     (Inr \<lparr>cars = [],
           session = \<lparr>name = str ''Race 1'', flag = str ''GREEN FLAG'', remaining = Some 120,
                      clock = 1700000000, source_ok = False\<rparr>\<rparr>,
      cached_service\<lparr>last_fetch_ok := False\<rparr>)"
    using main h0 h1 h2
    by (simp add: cached_service_def or_default_def str_def forbidden_world_def)
  have r2: "plugin_getRaceState ascii_runtime offline_world init_service =
     (Inr \<lparr>cars = [],
           session = \<lparr>name = str ''2CVRT'', flag = [], remaining = None,
                      clock = 1700000000, source_ok = False\<rparr>\<rparr>,
      init_service\<lparr>last_fetch_ok := False\<rparr>)"
    using plug p0
    by (simp add: init_service_def or_default_def offline_world_def)
  from h0 h1 h2 r1 p0 r2 show ?thesis by blast
qed

text \<open>
  Claim C4 as stated counts every status outside 200 to 299 as a failure. A 304 answer is
  not one for \<^verbatim>\<open>raise_for_status\<close>: the poll parses the empty page and returns
  \<^verbatim>\<open>source_ok\<close> true.
\<close>

theorem not_modified_is_not_a_failure:
  "xml_accepted ascii_runtime (http_get not_modified_world 0 xml_url) = None \<and>
   xml_accepted ascii_runtime (http_get not_modified_world 1 xml_url) = None \<and>
   http_get not_modified_world 2 DATA_SOURCE_URL = Response 304 [] \<and>
   getRaceState ascii_runtime not_modified_world init_service =
     (Inr \<lparr>cars = [],
           session = \<lparr>name = str ''2CVRT'', flag = [], remaining = None,
                      clock = 1700000000, source_ok = True\<rparr>\<rparr>,
      init_service\<lparr>last_fetch_ok := True\<rparr>)"
proof -
  let ?U = ascii_runtime and ?w = not_modified_world
  have a: "xml_accepted ?U (http_get ?w k xml_url) = None" for k
    by (simp add: not_modified_world_def xml_url_not_page refused_not_accepted)
  have h: "http_get ?w 2 DATA_SOURCE_URL = Response 304 []"
    by (simp add: not_modified_world_def)
  have f: "fetch_html ?w 2 DATA_SOURCE_URL = Some []"
    by (simp add: fetch_html_def h raises_for_status_def)
  have p: "html_parser ?U [] = Some (Tag (str ''[document]'') [])"
    by (simp add: ascii_runtime_def)
  have n: "now ?w = 1700000000"
    by (simp add: not_modified_world_def)
  have "getRaceState ?U ?w init_service =
     (Inr \<lparr>cars = [],
           session = \<lparr>name = str ''2CVRT'', flag = [], remaining = None,
                      clock = 1700000000, source_ok = True\<rparr>\<rparr>,
      init_service\<lparr>last_fetch_ok := True\<rparr>)"
    by (simp add: getRaceState_paths probe_two_failures[OF a a] f p empty_page_cars
          init_session n)
  with a h show ?thesis by simp
qed

text \<open>
  Claim C5. A poll that ends in the fetch-failure outcome (a result whose
  \<^verbatim>\<open>source_ok\<close> is false) leaves \<^verbatim>\<open>_last_session_name\<close>, \<^verbatim>\<open>_last_flag\<close> and
  \<^verbatim>\<open>_last_remaining\<close> as they were, in both modules.
\<close>

theorem failed_poll_keeps_cache:
  "(getRaceState U w self = (Inr r, self') \<and> \<not> source_ok (session r) \<longrightarrow>
      last_session_name self' = last_session_name self \<and>
      last_flag self' = last_flag self \<and>
      last_remaining self' = last_remaining self) \<and>
   (plugin_getRaceState U w self = (Inr r, self') \<and> \<not> source_ok (session r) \<longrightarrow>
      last_session_name self' = last_session_name self \<and>
      last_flag self' = last_flag self \<and>
      last_remaining self' = last_remaining self)"
proof (intro conjI impI)
  assume "getRaceState U w self = (Inr r, self') \<and> \<not> source_ok (session r)"
  then have "self' = snd (getRaceState U w self)" by simp
  then have c: "cache self' = cache self" by (simp add: cache_getRaceState)
  from c show "last_session_name self' = last_session_name self" by (simp add: cache_def)
  from c show "last_flag self' = last_flag self" by (simp add: cache_def)
  from c show "last_remaining self' = last_remaining self" by (simp add: cache_def)
next
  assume "plugin_getRaceState U w self = (Inr r, self') \<and> \<not> source_ok (session r)"
  then have "self' = snd (plugin_getRaceState U w self)" by simp
  then have c: "cache self' = cache self" by (simp add: cache_plugin_getRaceState)
  from c show "last_session_name self' = last_session_name self" by (simp add: cache_def)
  from c show "last_flag self' = last_flag self" by (simp add: cache_def)
  from c show "last_remaining self' = last_remaining self" by (simp add: cache_def)
qed

text \<open>An offline network and a filled cache: the poll fails and the cache stays.\<close>

theorem failed_poll_keeps_cache_witness:
  "getRaceState ascii_runtime offline_world cached_service =
     (Inr \<lparr>cars = [],
           session = \<lparr>name = str ''Race 1'', flag = str ''GREEN FLAG'', remaining = Some 120,
                      clock = 1700000000, source_ok = False\<rparr>\<rparr>,
      cached_service\<lparr>last_fetch_ok := False\<rparr>) \<and>
   last_session_name (cached_service\<lparr>last_fetch_ok := False\<rparr>) = Some (str ''Race 1'') \<and>
   last_flag (cached_service\<lparr>last_fetch_ok := False\<rparr>) = Some (str ''GREEN FLAG'') \<and>
   last_remaining (cached_service\<lparr>last_fetch_ok := False\<rparr>) = Some 120 \<and>
   plugin_getRaceState ascii_runtime offline_world cached_service =
     (Inr \<lparr>cars = [],
           session = \<lparr>name = str ''Race 1'', flag = str ''GREEN FLAG'', remaining = Some 120,
                      clock = 1700000000, source_ok = False\<rparr>\<rparr>,
      cached_service\<lparr>last_fetch_ok := False\<rparr>)"
proof -
  let ?r = "\<lparr>cars = [],
           session = \<lparr>name = str ''Race 1'', flag = str ''GREEN FLAG'', remaining = Some 120,
                      clock = 1700000000, source_ok = False\<rparr>\<rparr>"
  let ?s = "cached_service\<lparr>last_fetch_ok := False\<rparr>"
  have g: "getRaceState ascii_runtime offline_world cached_service = (Inr ?r, ?s)"
    by (simp add: offline_poll cached_session)
  have p: "plugin_getRaceState ascii_runtime offline_world cached_service = (Inr ?r, ?s)"
    by (simp add: offline_poll cached_session)
  have n: "\<not> source_ok (session ?r)" by simp
  from failed_poll_keeps_cache[of ascii_runtime offline_world cached_service ?r ?s] g n
  have "last_session_name ?s = last_session_name cached_service \<and>
        last_flag ?s = last_flag cached_service \<and>
        last_remaining ?s = last_remaining cached_service"
    by blast
  then have "last_session_name ?s = Some (str ''Race 1'') \<and>
        last_flag ?s = Some (str ''GREEN FLAG'') \<and> last_remaining ?s = Some 120"
    by (simp add: cached_service_def)
  with g p show ?thesis by blast
qed

text \<open>
  Claim C7 says that two polls in a row over the same HTML or XML document give the same
  cars and the same name, flag and remaining time. In the module with the XML path two polls
  in a row that are served the same XML document give no output at all: each raises the
  AttributeError of \<^verbatim>\<open>soup.find_all\<close> and leaves the service as it was.
\<close>

theorem two_xml_polls_raise:
  "getRaceState xml_runtime xml_world init_service = (Inl AttributeError, init_service) \<and>
   getRaceState xml_runtime (xml_world\<lparr>now := 1700000003\<rparr>)
     (snd (getRaceState xml_runtime xml_world init_service)) =
     (Inl AttributeError, init_service)"
proof -
  have a: "xml_accepted xml_runtime (http_get xml_world 0 xml_url) = Some xml_doc_text"
    by (simp add: xml_world_def xml_doc_accepted)
  then have b: "xml_accepted xml_runtime (http_get (xml_world\<lparr>now := 1700000003\<rparr>) 0 xml_url) =
                Some xml_doc_text"
    by simp
  have r: "fromstring xml_runtime xml_doc_text = Some xml_doc_root"
    by (simp add: xml_runtime_def)
  have first: "getRaceState xml_runtime xml_world init_service = (Inl AttributeError, init_service)"
    using a r by (rule xml_selected_raises)
  have "getRaceState xml_runtime (xml_world\<lparr>now := 1700000003\<rparr>) init_service =
        (Inl AttributeError, init_service)"
    using b r by (rule xml_selected_raises)
  with first show ?thesis by simp
qed

text \<open>
  Claim C9. The cache update assigns a field only a truthy fresh value (for the remaining
  time: one that is not \<^verbatim>\<open>None\<close>) and keeps the field otherwise; so a cached field that
  is set stays set through the update and through a poll of either module.
\<close>

theorem cache_never_downgrades:
  "last_session_name (update_cache session_name flag' remaining' self) =
     (if truthy session_name then session_name else last_session_name self) \<and>
   last_flag (update_cache session_name flag' remaining' self) =
     (if truthy flag' then flag' else last_flag self) \<and>
   last_remaining (update_cache session_name flag' remaining' self) =
     (if remaining' \<noteq> None then remaining' else last_remaining self) \<and>
   ((self' = update_cache session_name flag' remaining' self \<or>
     self' = snd (getRaceState U w self) \<or>
     self' = snd (plugin_getRaceState U w self)) \<longrightarrow>
    (truthy (last_session_name self) \<longrightarrow> truthy (last_session_name self')) \<and>
    (truthy (last_flag self) \<longrightarrow> truthy (last_flag self')) \<and>
    (last_remaining self \<noteq> None \<longrightarrow> last_remaining self' \<noteq> None))"
proof -
  have upd:
    "last_session_name (update_cache session_name flag' remaining' self) =
       (if truthy session_name then session_name else last_session_name self)"
    "last_flag (update_cache session_name flag' remaining' self) =
       (if truthy flag' then flag' else last_flag self)"
    "last_remaining (update_cache session_name flag' remaining' self) =
       (if remaining' \<noteq> None then remaining' else last_remaining self)"
    by (simp_all add: update_cache_def truthy_def Let_def)
  have keep: "(truthy (last_session_name self) \<longrightarrow> truthy (last_session_name self')) \<and>
    (truthy (last_flag self) \<longrightarrow> truthy (last_flag self')) \<and>
    (last_remaining self \<noteq> None \<longrightarrow> last_remaining self' \<noteq> None)"
    if "self' = update_cache session_name flag' remaining' self \<or>
        self' = snd (getRaceState U w self) \<or>
        self' = snd (plugin_getRaceState U w self)"
  proof -
    from that consider (u) "self' = update_cache session_name flag' remaining' self"
      | (c) "cache self' = cache self"
      using cache_getRaceState cache_plugin_getRaceState by metis
    then show ?thesis
    proof cases
      case u
      then show ?thesis by (auto simp: upd)
    next
      case c
      then show ?thesis by (simp add: cache_def)
    qed
  qed
  from upd keep show ?thesis by blast
qed

text \<open>
  A filled cache, updated with a fresh name and an empty fresh flag, and polled once.
\<close>

theorem cache_never_downgrades_witness:
  "truthy (last_session_name cached_service) \<and> truthy (last_flag cached_service) \<and>
   last_remaining cached_service \<noteq> None \<and>
   last_session_name (update_cache (Some (str ''Race 2'')) (Some []) None cached_service) =
     Some (str ''Race 2'') \<and>
   last_flag (update_cache (Some (str ''Race 2'')) (Some []) None cached_service) =
     Some (str ''GREEN FLAG'') \<and>
   last_remaining (update_cache (Some (str ''Race 2'')) (Some []) None cached_service) = Some 120 \<and>
   truthy (last_flag (snd (getRaceState page_runtime (page_world 1700000000) cached_service)))"
proof -
  note u = cache_never_downgrades[of "Some (str ''Race 2'')" "Some []" None cached_service
      "update_cache (Some (str ''Race 2'')) (Some []) None cached_service"]
  note g = cache_never_downgrades[of None None None cached_service
      "snd (getRaceState page_runtime (page_world 1700000000) cached_service)"
      page_runtime "page_world 1700000000"]
  have t: "truthy (last_session_name cached_service)" "truthy (last_flag cached_service)"
    "last_remaining cached_service \<noteq> None"
    by (simp_all add: cached_service_def truthy_def str_def)
  have f: "truthy (Some (str ''Race 2''))" "\<not> truthy (Some [])"
    by (simp_all add: truthy_def str_def)
  from u f have
    "last_session_name (update_cache (Some (str ''Race 2'')) (Some []) None cached_service) =
       Some (str ''Race 2'')"
    "last_flag (update_cache (Some (str ''Race 2'')) (Some []) None cached_service) =
       last_flag cached_service"
    "last_remaining (update_cache (Some (str ''Race 2'')) (Some []) None cached_service) =
       last_remaining cached_service"
    by simp_all
  moreover from g t have
    "truthy (last_flag (snd (getRaceState page_runtime (page_world 1700000000) cached_service)))"
    by blast
  ultimately show ?thesis
    using t by (simp add: cached_service_def)
qed


section \<open>Properties of the header lookup\<close>

lemma index_of_update:
  "a \<noteq> x \<Longrightarrow> a \<noteq> y \<Longrightarrow> i < length ls \<Longrightarrow> ls ! i = x \<Longrightarrow>
   index_of a (ls[i := y]) = index_of a ls"
proof (induction ls arbitrary: i)
  case Nil
  then show ?case by simp
next
  case (Cons l ls)
  then show ?case by (cases i) auto
qed

lemma set_update_other:
  "a \<noteq> x \<Longrightarrow> a \<noteq> y \<Longrightarrow> i < length ls \<Longrightarrow> ls ! i = x \<Longrightarrow>
   (a \<in> set (ls[i := y])) = (a \<in> set ls)"
proof (induction ls arbitrary: i)
  case Nil
  then show ?case by simp
next
  case (Cons l ls)
  then show ?case by (cases i) auto
qed

lemma idx_update_other:
  assumes "\<forall>a\<in>set alts. a \<noteq> x \<and> a \<noteq> y" and "i < length ls" and "ls ! i = x"
  shows "idx (ls[i := y]) alts = idx ls alts"
  using assms(1)
  by (induction alts)
     (simp_all add: index_of_update[OF _ _ assms(2,3)] set_update_other[OF _ _ assms(2,3)])

lemma index_of_nth:
  "i < length ls \<Longrightarrow> ls ! i = a \<Longrightarrow> a \<notin> set (take i ls) \<Longrightarrow> index_of a ls = i"
proof (induction ls arbitrary: i)
  case Nil
  then show ?case by simp
next
  case (Cons l ls)
  then show ?case by (cases i) auto
qed

lemma idx_drivers_pilotes:
  assumes i: "i < length ls" and d: "ls ! i = str ''drivers''"
    and nd: "str ''drivers'' \<notin> set (ls[i := str ''pilotes''])"
    and o: "str ''driver'' \<notin> set ls" "str ''pilote'' \<notin> set ls" "str ''pilotes'' \<notin> set ls"
  shows "idx (ls[i := str ''pilotes''])
           [str ''drivers'', str ''driver'', str ''pilote'', str ''pilotes''] =
         idx ls [str ''drivers'', str ''driver'', str ''pilote'', str ''pilotes'']"
proof -
  let ?ls' = "ls[i := str ''pilotes'']"
  have ne: "str ''driver'' \<noteq> str ''pilotes''" "str ''pilote'' \<noteq> str ''pilotes''"
    by (simp_all add: str_def)
  have t: "take i ?ls' = take i ls" by simp
  have "set (take i ls) \<subseteq> set ?ls'"
    using set_take_subset[of i ?ls'] by (simp only: t)
  with nd have "str ''drivers'' \<notin> set (take i ls)" by blast
  with i d have "index_of (str ''drivers'') ls = i" by (rule index_of_nth)
  moreover from i d have "str ''drivers'' \<in> set ls" by (metis nth_mem)
  ultimately have l: "idx ls [str ''drivers'', str ''driver'', str ''pilote'', str ''pilotes''] =
                      Some i"
    by simp
  have sub: "set ?ls' \<subseteq> insert (str ''pilotes'') (set ls)"
    by (rule set_update_subset_insert)
  from sub o(1) ne(1) have n1: "str ''driver'' \<notin> set ?ls'" by blast
  from sub o(2) ne(2) have n2: "str ''pilote'' \<notin> set ?ls'" by blast
  from i have m: "str ''pilotes'' \<in> set ?ls'" by (rule set_update_memI)
  from o(3) have "str ''pilotes'' \<notin> set (take i ?ls')"
    using set_take_subset[of i ls] by (simp only: t) blast
  with i have "index_of (str ''pilotes'') ?ls' = i"
    by (intro index_of_nth) simp_all
  with nd n1 n2 m
  have "idx ?ls' [str ''drivers'', str ''driver'', str ''pilote'', str ''pilotes''] = Some i"
    by simp
  with l show ?thesis by simp
qed

lemma col_idx_pilotes:
  assumes i: "i < length ls" and d: "ls ! i = str ''drivers''"
    and nd: "str ''drivers'' \<notin> set (ls[i := str ''pilotes''])"
    and o: "str ''driver'' \<notin> set ls" "str ''pilote'' \<notin> set ls" "str ''pilotes'' \<notin> set ls"
  shows "col_idx (ls[i := str ''pilotes'']) = col_idx ls"
proof -
  let ?ls' = "ls[i := str ''pilotes'']"
  have other: "idx ?ls' alts = idx ls alts"
    if "\<forall>a\<in>set alts. a \<noteq> str ''drivers'' \<and> a \<noteq> str ''pilotes''" for alts
    using that i d by (rule idx_update_other)
  have e:
    "idx ?ls' [str ''pos'', str ''position''] = idx ls [str ''pos'', str ''position'']"
    "idx ?ls' [str ''now'', str ''state'', str ''status''] =
     idx ls [str ''now'', str ''state'', str ''status'']"
    "idx ?ls' [str ''num'', str ''#'', str ''car'', [110, 176], [110, 186]] =
     idx ls [str ''num'', str ''#'', str ''car'', [110, 176], [110, 186]]"
    "idx ?ls' [str ''team'', str ''name''] = idx ls [str ''team'', str ''name'']"
    "idx ?ls' [str ''last'', str ''last time'', str ''last lap'', str ''dernier'',
               str ''dernier tour''] =
     idx ls [str ''last'', str ''last time'', str ''last lap'', str ''dernier'',
             str ''dernier tour'']"
    "idx ?ls' [str ''best'', str ''best time'', str ''best lap'', str ''meilleur'',
               str ''meilleur tour''] =
     idx ls [str ''best'', str ''best time'', str ''best lap'', str ''meilleur'',
             str ''meilleur tour'']"
    "idx ?ls' [str ''lap'', str ''laps'', str ''tour'', str ''tours''] =
     idx ls [str ''lap'', str ''laps'', str ''tour'', str ''tours'']"
    "idx ?ls' [str ''gap'', str ''ecart'', [233, 99, 97, 114, 116]] =
     idx ls [str ''gap'', str ''ecart'', [233, 99, 97, 114, 116]]"
    by (rule other, simp add: str_def)+
  note drv = idx_drivers_pilotes[OF assms]
  show ?thesis
    by (rule ext) (simp only: col_idx_def e drv)
qed

lemma split_at_header_append:
  "list_all (\<lambda>r. \<not> looks_like_header U r) pre \<Longrightarrow> looks_like_header U h \<Longrightarrow>
   split_at_header U (pre @ h # rest) = Some (h, rest)"
  by (induction pre) simp_all

lemma locate_table_single: "locate_table U [t] = Some t"
  by (simp add: locate_table_def)

text \<open>The header rows and data rows of the example tables.\<close>

lemma node_text_leaf: "node_text U (Tag n [Text s]) = strip U (collapse_spaces U (strip U s))"
  by (cases "strip U s = []") (simp_all add: node_text_def get_text_def)

lemmas cell_eval =
  find_all_def th_cell_def td_cell_def table_row_def node_text_leaf str_def strip_def
  isspace_def lower_def

lemma example_rows:
  "find_all [str ''tr''] num_drivers_table =
     [title_row, table_row [th_cell ''Num'', th_cell ''Drivers''], bob_row]"
  "find_all [str ''tr''] num_pilotes_table =
     [title_row, table_row [th_cell ''Num'', th_cell ''Pilotes''], bob_row]"
  "find_all [str ''tr''] car_drivers_table =
     [table_row [th_cell ''Car'', th_cell ''Drivers''], bob_row]"
  "find_all [str ''tr''] car_pilotes_table =
     [table_row [th_cell ''Car'', th_cell ''Pilotes''], bob_row]"
  "find_all [str ''tr''] driver_drivers_table =
     [table_row [th_cell ''Num'', th_cell ''Driver'', th_cell ''Drivers''], alice_bob_row]"
  "find_all [str ''tr''] driver_pilotes_table =
     [table_row [th_cell ''Num'', th_cell ''Driver'', th_cell ''Pilotes''], alice_bob_row]"
  by (simp_all add: find_all_def num_drivers_table_def num_pilotes_table_def
        car_drivers_table_def car_pilotes_table_def driver_drivers_table_def
        driver_pilotes_table_def title_row_def bob_row_def alice_bob_row_def th_cell_def
        td_cell_def
        table_row_def str_def)

lemma example_labels:
  "header_labels U (table_row [th_cell ''Num'', th_cell ''Drivers'']) =
     [str ''num'', str ''drivers'']"
  "header_labels U (table_row [th_cell ''Num'', th_cell ''Pilotes'']) =
     [str ''num'', str ''pilotes'']"
  "header_labels U (table_row [th_cell ''Car'', th_cell ''Drivers'']) =
     [str ''car'', str ''drivers'']"
  "header_labels U (table_row [th_cell ''Num'', th_cell ''Driver'', th_cell ''Drivers'']) =
     [str ''num'', str ''driver'', str ''drivers'']"
  "header_labels U (table_row [th_cell ''Num'', th_cell ''Driver'', th_cell ''Pilotes'']) =
     [str ''num'', str ''driver'', str ''pilotes'']"
  by (simp_all add: header_labels_def cell_eval)

lemma example_headers:
  "looks_like_header U (table_row [th_cell ''Num'', th_cell ''Drivers''])"
  "looks_like_header U (table_row [th_cell ''Num'', th_cell ''Pilotes''])"
  "looks_like_header U (table_row [th_cell ''Car'', th_cell ''Drivers''])"
  "\<not> looks_like_header U (table_row [th_cell ''Car'', th_cell ''Pilotes''])"
  "looks_like_header U (table_row [th_cell ''Num'', th_cell ''Driver'', th_cell ''Drivers''])"
  "looks_like_header U (table_row [th_cell ''Num'', th_cell ''Driver'', th_cell ''Pilotes''])"
  "\<not> looks_like_header U title_row"
  "\<not> looks_like_header U bob_row"
  "\<not> looks_like_header U alice_bob_row"
  unfolding looks_like_header_def Let_def title_row_def bob_row_def alice_bob_row_def
  by (simp_all add: cell_eval)

lemma example_columns:
  "col_idx [str ''num'', str ''drivers''] (str ''num'') = Some 0"
  "col_idx [str ''num'', str ''drivers''] (str ''drivers'') = Some 1"
  "col_idx [str ''car'', str ''drivers''] (str ''num'') = Some 0"
  "col_idx [str ''car'', str ''drivers''] (str ''drivers'') = Some 1"
  "col_idx [str ''num'', str ''driver'', str ''drivers''] (str ''num'') = Some 0"
  "col_idx [str ''num'', str ''driver'', str ''drivers''] (str ''drivers'') = Some 2"
  "col_idx [str ''num'', str ''driver'', str ''pilotes''] (str ''num'') = Some 0"
  "col_idx [str ''num'', str ''driver'', str ''pilotes''] (str ''drivers'') = Some 1"
  by (simp_all add: col_idx_def str_def)

lemma example_no_columns:
  assumes "ls = [str ''num'', str ''drivers''] \<or> ls = [str ''car'', str ''drivers''] \<or>
           ls = [str ''num'', str ''driver'', str ''drivers''] \<or>
           ls = [str ''num'', str ''driver'', str ''pilotes'']"
  shows "col_idx ls (str ''team'') = None" "col_idx ls (str ''last'') = None"
    "col_idx ls (str ''best'') = None" "col_idx ls (str ''state'') = None"
  using assms by (auto simp: col_idx_def str_def)

lemma html_row_two_columns:
  assumes "ci (str ''num'') = Some 0" and "ci (str ''drivers'') = Some 1"
    and "ci (str ''team'') = None" and "ci (str ''last'') = None"
    and "ci (str ''best'') = None" and "ci (str ''state'') = None"
  shows "html_row U ci bob_row =
     Inr [\<lparr>car_num = str ''12'', car_state = [], car_driver = str ''Bob'',
           car_last_lap = None, car_best_lap = None\<rparr>]"
    and "html_row U ci alice_bob_row =
     Inr [\<lparr>car_num = str ''12'', car_state = [], car_driver = str ''Alice'',
           car_last_lap = None, car_best_lap = None\<rparr>]"
  unfolding html_row_def Let_def get_cell_def assms bob_row_def alice_bob_row_def
  by (simp_all add: cell_eval parse_lap_time_def)

lemma html_row_third_column:
  assumes "ci (str ''num'') = Some 0" and "ci (str ''drivers'') = Some 2"
    and "ci (str ''team'') = None" and "ci (str ''last'') = None"
    and "ci (str ''best'') = None" and "ci (str ''state'') = None"
  shows "html_row U ci alice_bob_row =
     Inr [\<lparr>car_num = str ''12'', car_state = [], car_driver = str ''Bob'',
           car_last_lap = None, car_best_lap = None\<rparr>]"
  unfolding html_row_def Let_def get_cell_def assms alice_bob_row_def
  by (simp add: cell_eval parse_lap_time_def)

lemma example_cars:
  "html_cars U num_drivers_table =
     Inr [\<lparr>car_num = str ''12'', car_state = [], car_driver = str ''Bob'',
           car_last_lap = None, car_best_lap = None\<rparr>]"
  "html_cars U car_drivers_table =
     Inr [\<lparr>car_num = str ''12'', car_state = [], car_driver = str ''Bob'',
           car_last_lap = None, car_best_lap = None\<rparr>]"
  "html_cars U car_pilotes_table = Inr []"
  "html_cars U driver_drivers_table =
     Inr [\<lparr>car_num = str ''12'', car_state = [], car_driver = str ''Bob'',
           car_last_lap = None, car_best_lap = None\<rparr>]"
  "html_cars U driver_pilotes_table =
     Inr [\<lparr>car_num = str ''12'', car_state = [], car_driver = str ''Alice'',
           car_last_lap = None, car_best_lap = None\<rparr>]"
proof -
  show "html_cars U num_drivers_table =
     Inr [\<lparr>car_num = str ''12'', car_state = [], car_driver = str ''Bob'',
           car_last_lap = None, car_best_lap = None\<rparr>]"
    by (simp add: html_cars_def table_rows_def example_rows example_headers example_labels
          html_row_two_columns(1) example_columns example_no_columns)
  show "html_cars U car_drivers_table =
     Inr [\<lparr>car_num = str ''12'', car_state = [], car_driver = str ''Bob'',
           car_last_lap = None, car_best_lap = None\<rparr>]"
    by (simp add: html_cars_def table_rows_def example_rows example_headers example_labels
          html_row_two_columns(1) example_columns example_no_columns)
  show "html_cars U car_pilotes_table = Inr []"
    by (simp add: html_cars_def table_rows_def example_rows example_headers)
  show "html_cars U driver_drivers_table =
     Inr [\<lparr>car_num = str ''12'', car_state = [], car_driver = str ''Bob'',
           car_last_lap = None, car_best_lap = None\<rparr>]"
    by (simp add: html_cars_def table_rows_def example_rows example_headers example_labels
          html_row_third_column example_columns example_no_columns)
  show "html_cars U driver_pilotes_table =
     Inr [\<lparr>car_num = str ''12'', car_state = [], car_driver = str ''Alice'',
           car_last_lap = None, car_best_lap = None\<rparr>]"
    by (simp add: html_cars_def table_rows_def example_rows example_headers example_labels
          html_row_two_columns(2) example_columns example_no_columns)
qed

text \<open>
  Claim C8, as amended. Take two tables whose rows are the same but for the header row,
  and whose header rows carry the same labels but for one column, labelled
  \<^verbatim>\<open>drivers\<close> in the first and \<^verbatim>\<open>pilotes\<close> in the second. When both header rows are
  recognised as the header (no row before them is, and each has one of the labels the
  header test knows, of which \<^verbatim>\<open>pilotes\<close> is none) and no other column is labelled
  \<^verbatim>\<open>drivers\<close>, \<^verbatim>\<open>driver\<close>, \<^verbatim>\<open>pilote\<close> or \<^verbatim>\<open>pilotes\<close>, the two tables yield the same
  car rows, and so the same driver field in each.
\<close>

theorem pilotes_header_same_cars:
  assumes "find_all [str ''tr''] table = before @ header_row # data_rows"
    and "find_all [str ''tr''] table' = before @ header_row' # data_rows"
    and "list_all (\<lambda>r. \<not> looks_like_header U r) before"
    and "looks_like_header U header_row"
    and "looks_like_header U header_row'"
    and "i < length (header_labels U header_row)"
    and "header_labels U header_row ! i = str ''drivers''"
    and "header_labels U header_row' = (header_labels U header_row)[i := str ''pilotes'']"
    and "str ''drivers'' \<notin> set (header_labels U header_row')"
    and "str ''driver'' \<notin> set (header_labels U header_row)"
    and "str ''pilote'' \<notin> set (header_labels U header_row)"
    and "str ''pilotes'' \<notin> set (header_labels U header_row)"
  shows "html_cars U table' = html_cars U table"
proof -
  have s: "split_at_header U (before @ header_row # data_rows) = Some (header_row, data_rows)"
    using assms(3,4) by (rule split_at_header_append)
  have s': "split_at_header U (before @ header_row' # data_rows) = Some (header_row', data_rows)"
    using assms(3,5) by (rule split_at_header_append)
  have nd: "str ''drivers'' \<notin> set ((header_labels U header_row)[i := str ''pilotes''])"
    using assms(9) unfolding assms(8) .
  have "col_idx (header_labels U header_row') = col_idx (header_labels U header_row)"
    unfolding assms(8)
    using assms(6,7) nd assms(10,11,12) by (rule col_idx_pilotes)
  then show ?thesis
    by (simp add: html_cars_def table_rows_def assms(1,2) s s')
qed

text \<open>
  The table with a title row and the columns \<^verbatim>\<open>Num\<close> and \<^verbatim>\<open>Drivers\<close>, and the
  same table with \<^verbatim>\<open>Pilotes\<close> for the latter.
\<close>

theorem pilotes_header_same_cars_witness:
  "find_all [str ''tr''] num_drivers_table =
     [title_row] @ table_row [th_cell ''Num'', th_cell ''Drivers''] # [bob_row] \<and>
   find_all [str ''tr''] num_pilotes_table =
     [title_row] @ table_row [th_cell ''Num'', th_cell ''Pilotes''] # [bob_row] \<and>
   \<not> looks_like_header ascii_runtime title_row \<and>
   looks_like_header ascii_runtime (table_row [th_cell ''Num'', th_cell ''Drivers'']) \<and>
   looks_like_header ascii_runtime (table_row [th_cell ''Num'', th_cell ''Pilotes'']) \<and>
   header_labels ascii_runtime (table_row [th_cell ''Num'', th_cell ''Drivers'']) =
     [str ''num'', str ''drivers''] \<and>
   header_labels ascii_runtime (table_row [th_cell ''Num'', th_cell ''Pilotes'']) =
     [str ''num'', str ''pilotes''] \<and>
   html_cars ascii_runtime num_pilotes_table = html_cars ascii_runtime num_drivers_table \<and>
   html_cars ascii_runtime num_pilotes_table =
     Inr [\<lparr>car_num = str ''12'', car_state = [], car_driver = str ''Bob'',
           car_last_lap = None, car_best_lap = None\<rparr>]"
proof -
  let ?U = ascii_runtime
  let ?h = "table_row [th_cell ''Num'', th_cell ''Drivers'']"
  let ?h' = "table_row [th_cell ''Num'', th_cell ''Pilotes'']"
  have r: "find_all [str ''tr''] num_drivers_table = [title_row] @ ?h # [bob_row]"
    by (simp add: example_rows)
  have r': "find_all [str ''tr''] num_pilotes_table = [title_row] @ ?h' # [bob_row]"
    by (simp add: example_rows)
  have t: "\<not> looks_like_header ?U title_row" by (rule example_headers)
  then have b: "list_all (\<lambda>r. \<not> looks_like_header ?U r) [title_row]" by simp
  have k: "looks_like_header ?U ?h" by (rule example_headers)
  have k': "looks_like_header ?U ?h'" by (rule example_headers)
  have l: "header_labels ?U ?h = [str ''num'', str ''drivers'']" by (rule example_labels)
  have l': "header_labels ?U ?h' = [str ''num'', str ''pilotes'']" by (rule example_labels)
  have i: "1 < length (header_labels ?U ?h)" by (simp add: l)
  have d: "header_labels ?U ?h ! 1 = str ''drivers''" by (simp add: l)
  have u: "header_labels ?U ?h' = (header_labels ?U ?h)[1 := str ''pilotes'']"
    by (simp add: l l')
  have n: "str ''drivers'' \<notin> set (header_labels ?U ?h')"
    "str ''driver'' \<notin> set (header_labels ?U ?h)"
    "str ''pilote'' \<notin> set (header_labels ?U ?h)"
    "str ''pilotes'' \<notin> set (header_labels ?U ?h)"
    by (simp_all add: l l' str_def)
  have e: "html_cars ?U num_pilotes_table = html_cars ?U num_drivers_table"
    using r r' b k k' i d u n by (rule pilotes_header_same_cars)
  then have "html_cars ?U num_pilotes_table =
     Inr [\<lparr>car_num = str ''12'', car_state = [], car_driver = str ''Bob'',
           car_last_lap = None, car_best_lap = None\<rparr>]"
    by (simp add: example_cars)
  with r r' t k k' l l' e show ?thesis by blast
qed

text \<open>
  Claim C8 as stated holds for every header row. Beside a column \<^verbatim>\<open>Car\<close> the label
  \<^verbatim>\<open>Drivers\<close> is what makes the row the header, and with \<^verbatim>\<open>Pilotes\<close> in its place
  no header is found and no car is emitted. Beside a column \<^verbatim>\<open>Driver\<close> the lookup
  prefers \<^verbatim>\<open>drivers\<close> to \<^verbatim>\<open>driver\<close> and \<^verbatim>\<open>driver\<close> to \<^verbatim>\<open>pilotes\<close>, so the
  driver field is read from another column. Each table is the one the page with it alone
  locates.
\<close>

theorem pilotes_header_changes_cars:
  "locate_table ascii_runtime [car_pilotes_table] = Some car_pilotes_table \<and>
   html_cars ascii_runtime car_drivers_table =
     Inr [\<lparr>car_num = str ''12'', car_state = [], car_driver = str ''Bob'',
           car_last_lap = None, car_best_lap = None\<rparr>] \<and>
   html_cars ascii_runtime car_pilotes_table = Inr [] \<and>
   locate_table ascii_runtime [driver_pilotes_table] = Some driver_pilotes_table \<and>
   html_cars ascii_runtime driver_drivers_table =
     Inr [\<lparr>car_num = str ''12'', car_state = [], car_driver = str ''Bob'',
           car_last_lap = None, car_best_lap = None\<rparr>] \<and>
   html_cars ascii_runtime driver_pilotes_table =
     Inr [\<lparr>car_num = str ''12'', car_state = [], car_driver = str ''Alice'',
           car_last_lap = None, car_best_lap = None\<rparr>]"
  by (simp add: locate_table_single example_cars)

end
